theory Spec2Isabelle
  imports Main "HOL-Library.AList"
begin

section \<open>File download units (poliigon\_core/api.py)\<close>

text \<open>
  The enum \<open>DownloadStatus\<close> and the dataclass \<open>FileDownload\<close> of api.py. The
  fields \<open>fut\<close> (handle of the worker), \<open>duration\<close> (a float, for log output only)
  and \<open>lock\<close> are left out: every method below runs its body under the lock, so one
  call is one atomic step on the record.
\<close>

datatype DownloadStatus = INITIALIZED | WAITING | ONGOING | CANCELLED | DONE | ERROR

record FileDownload =
  asset_id :: int
  url :: string
  filename :: string
  size_expected :: int
  size_downloaded :: int
  status :: DownloadStatus
  directory :: string
  retries :: int
  error :: "string option"

definition MAX_RETRIES_PER_FILE :: int where
  "MAX_RETRIES_PER_FILE = 3"

definition DOWNLOAD_TEMP_SUFFIX :: string where
  "DOWNLOAD_TEMP_SUFFIX = ''dl''"

text \<open>The dataclass constructor with its defaults.\<close>

definition new_FileDownload :: "int \<Rightarrow> string \<Rightarrow> string \<Rightarrow> int \<Rightarrow> FileDownload" where
  "new_FileDownload aid u f sz =
     \<lparr>asset_id = aid, url = u, filename = f, size_expected = sz, size_downloaded = 0,
      status = INITIALIZED, directory = [], retries = MAX_RETRIES_PER_FILE, error = None\<rparr>"

text \<open>
  \<open>set_status_cancelled\<close>: "do not overwrite final states".
\<close>

definition set_status_cancelled :: "FileDownload \<Rightarrow> FileDownload" where
  "set_status_cancelled d =
     (let is_done = (status d = DONE); has_error = (status d = ERROR)
      in if \<not> is_done \<and> \<not> has_error then d\<lparr>status := CANCELLED\<rparr> else d)"

text \<open>
  \<open>set_status_ongoing\<close>: "do not overwrite user cancellation". The result is the
  returned flag and the unit.
\<close>

definition set_status_ongoing :: "FileDownload \<Rightarrow> bool \<times> FileDownload" where
  "set_status_ongoing d =
     (if status d \<noteq> CANCELLED then (True, d\<lparr>status := ONGOING\<rparr>) else (False, d))"

definition set_status_error :: "FileDownload \<Rightarrow> FileDownload" where
  "set_status_error d = d\<lparr>status := ERROR\<rparr>"

definition set_status_done :: "FileDownload \<Rightarrow> FileDownload" where
  "set_status_done d = d\<lparr>status := DONE\<rparr>"

text \<open>
  \<open>schedule_downloads\<close> of addon.py: the list is sorted by expected size (Python's
  sort is stable, as \<open>sort_key\<close> is), then every unit gets the directory and the
  status WAITING and is submitted to the pool. The submission itself starts
  \<open>download_asset_file\<close> on the unit in a worker and is not part of this function's
  effect on the units.
\<close>

definition schedule_downloads :: "FileDownload list \<Rightarrow> string \<Rightarrow> FileDownload list" where
  "schedule_downloads dl_list dir =
     map (\<lambda>download. download\<lparr>directory := dir, status := WAITING\<rparr>)
         (sort_key size_expected dl_list)"

text \<open>The operations that write the status of one unit, as one datatype.\<close>

datatype status_op =
  Op_cancelled | Op_ongoing | Op_done | Op_error | Op_schedule string

fun apply_status_op :: "status_op \<Rightarrow> FileDownload \<Rightarrow> FileDownload" where
  "apply_status_op Op_cancelled d = set_status_cancelled d"
| "apply_status_op Op_ongoing d = snd (set_status_ongoing d)"
| "apply_status_op Op_done d = set_status_done d"
| "apply_status_op Op_error d = set_status_error d"
| "apply_status_op (Op_schedule dir) d = hd (schedule_downloads [d] dir)"

fun guarded_op :: "status_op \<Rightarrow> bool" where
  "guarded_op Op_cancelled = True"
| "guarded_op Op_done = True"
| "guarded_op Op_error = True"
| "guarded_op Op_ongoing = False"
| "guarded_op (Op_schedule dir) = False"

definition is_final :: "DownloadStatus \<Rightarrow> bool" where
  "is_final s = (s = DONE \<or> s = ERROR)"

definition dl_done_example :: FileDownload where
  "dl_done_example = (new_FileDownload 42 ''https://cdn/f'' ''Metal001_COL_4K.jpg'' 3000000)
     \<lparr>size_downloaded := 3000000, status := DONE, directory := ''/lib/Metal001''\<rparr>"

section \<open>Python exceptions\<close>

text \<open>The errno values that the sources tell apart, and any other.\<close>

datatype errno = ENOSPC | EACCES | EOTHER

text \<open>
  The members of the enums \<open>AssetType\<close> and \<open>ModelType\<close> of assets.py that the
  sources name.
\<close>

datatype AssetType = BRUSH | HDRI | MODEL | SUBSTANCE | TEXTURE

datatype ModelType = BLEND | C4D | FBX | MAX

text \<open>
  The three messages with which \<open>update_asset\<close> raises ValueError, as values: the
  identifier, name or type that cannot be changed, and what the call wanted instead.
\<close>

datatype mismatch =
    Id_mismatch int int
  | Name_mismatch string string
  | Type_mismatch AssetType AssetType

text \<open>The exceptions that leave a modelled function.\<close>

datatype exc =
    KeyError
  | ValueError mismatch
  | IndexError
  | UnboundLocalError
  | AttributeError
  | TypeError
  | FileExistsError
  | FileNotFoundError
  | PermissionError

text \<open>
  The exceptions that the streaming loop of \<open>download_asset_file\<close> handles, by its
  \<open>except\<close> clauses in their order: the connection error and the timeout of the
  requests library, an OSError with its errno, and any other Exception.
\<close>

datatype stream_exc =
    Stream_ConnectionError
  | Stream_Timeout
  | Stream_OSError errno
  | Stream_Exception

section \<open>Assets (the part of poliigon\_core/assets.py that the sources use)\<close>

text \<open>
  assets.py is not among the sources. The enum members and the attributes of
  \<open>AssetData\<close> below are the ones addon.py and asset\_index.py read and write. The
  four attributes \<open>brush\<close>, \<open>hdri\<close>, \<open>model\<close> and \<open>texture\<close>, of which
  \<open>get_type_data()\<close> returns the one of the asset's type, are the single field
  \<open>type_data\<close>; its type \<open>'p\<close> stands for the classes Texture, Model, Hdri and Brush.
  Timestamps are clock readings passed in as integers.
\<close>

record 'p AssetData =
  asset_id :: int
  asset_type :: AssetType
  asset_name :: string
  is_local :: "bool option"
  is_purchased :: "bool option"
  downloaded_at :: "int option"
  purchased_at :: "int option"
  type_data :: "'p option"

text \<open>
  The constants and methods of assets.py that the modelled functions call, as
  parameters: the vocabulary \<open>SIZES\<close> and the methods of the type data. The last of
  them, \<open>update_type_data old new purge_maps\<close>, is the \<open>update\<close> method of the
  classes Texture, Model, Hdri and Brush, to which \<open>AssetData.update\<close> hands the type
  data of the new record: how the subfields and the file listings of the old and the
  new type data are merged is decided there.
\<close>

record 'p assets_py =
  SIZES :: "string list"
  get_size_list :: "'p option \<Rightarrow> bool \<Rightarrow> string list"
  get_workflow :: "'p option \<Rightarrow> string option \<Rightarrow> string option"
  get_workflow_list :: "'p option \<Rightarrow> string list"
  get_map_type_code_list :: "'p option \<Rightarrow> string option \<Rightarrow> string list"
  size_default :: "'p option \<Rightarrow> string option"
  get_maps_count :: "'p option \<Rightarrow> string \<Rightarrow> string \<Rightarrow> nat"
  get_lod_list :: "'p option \<Rightarrow> string list option"
  get_mesh_count :: "'p option \<Rightarrow> string \<Rightarrow> ModelType \<Rightarrow> nat"
  has_mesh :: "'p option \<Rightarrow> ModelType option \<Rightarrow> bool \<Rightarrow> bool"
  update_type_data :: "'p option \<Rightarrow> 'p \<Rightarrow> bool \<Rightarrow> 'p"

section \<open>Resolving the download specification (poliigon\_core/addon.py)\<close>

text \<open>
  The section \<open>download\<close> of \<open>settings_config\<close>, as far as \<open>get_download_data\<close>
  reads it.
\<close>

record download_settings =
  tex_res :: "string option"
  model_res :: "string option"
  hdri_bg :: "string option"
  brush_res :: "string option"
  download_lods_setting :: bool

text \<open>
  The dictionary \<open>download_data["assets"][0]\<close>; a key the function does not set is
  \<open>None\<close>.
\<close>

record download_data =
  dd_id :: int
  dd_name :: string
  dd_workflows :: "string option list option"
  dd_type_codes :: "string list option"
  dd_lods :: "int option"
  dd_softwares :: "string list option"
  dd_renders :: "string list option"
  dd_sizes :: "string list"

text \<open>
  "If no size specified use defaults from preferences". For a type other than the
  four of the \<open>if\<close>/\<open>elif\<close> chain the variable \<open>sizes\<close> stays unbound and its
  first use raises.
\<close>

definition requested_sizes ::
  "'p assets_py \<Rightarrow> download_settings \<Rightarrow> 'p AssetData \<Rightarrow> string option
   \<Rightarrow> exc + string option list" where
  "requested_sizes A cfg asset_data size_arg =
     (if size_arg = Some [] \<or> size_arg = None then
        (case asset_type asset_data of
           TEXTURE \<Rightarrow> Inr [tex_res cfg]
         | MODEL \<Rightarrow>
             (let settings_size = model_res cfg;
                  sd = size_default A (type_data asset_data)
              in if (settings_size = Some [] \<or> settings_size = Some ''NONE''
                     \<or> settings_size = None) \<and> sd \<noteq> None
                 then Inr [sd] else Inr [settings_size])
         | HDRI \<Rightarrow> Inr [hdri_bg cfg]
         | BRUSH \<Rightarrow> Inr [brush_res cfg]
         | SUBSTANCE \<Rightarrow> Inl UnboundLocalError)
      else Inr [size_arg])"

definition MSG_MISSING_SIZES :: string where
  "MSG_MISSING_SIZES = ''Missing sizes for download! Setting size to minimum value.''"

text \<open>
  The three steps that fix \<open>download_data["assets"][0]["sizes"]\<close>: the requested
  sizes that are available, else the first available size of \<open>reversed(SIZES)\<close>, else
  \<open>SIZES[0]\<close> with a warning. The result is the size list and the warnings logged.
\<close>

definition resolve_sizes ::
  "string list \<Rightarrow> string list \<Rightarrow> string option list \<Rightarrow> exc + (string list \<times> string list)" where
  "resolve_sizes sizes_all sizes_data sizes =
     (let s1 = List.map_filter
                 (\<lambda>x. case x of None \<Rightarrow> None
                        | Some s \<Rightarrow> if s \<in> set sizes_data then Some s else None) sizes;
          s2 = (if length s1 = 0
                then (case find (\<lambda>s. s \<in> set sizes_data) (rev sizes_all) of
                        Some s \<Rightarrow> [s] | None \<Rightarrow> s1)
                else s1)
      in if length s2 = 0
         then (case sizes_all of
                 [] \<Rightarrow> Inl IndexError
               | s0 # rest \<Rightarrow> Inr ([s0], [MSG_MISSING_SIZES]))
         else Inr (s2, []))"

definition get_download_data ::
  "'p assets_py \<Rightarrow> download_settings \<Rightarrow> string \<Rightarrow> 'p AssetData \<Rightarrow> string option
   \<Rightarrow> bool option \<Rightarrow> bool \<Rightarrow> string option \<Rightarrow> exc + (download_data \<times> string list)" where
  "get_download_data A cfg software_dl_dcc asset_data size_arg download_lods native_mesh renderer =
     (let incl_watermarked = (size_arg = Some ''WM'');
          td = type_data asset_data;
          sizes_data = get_size_list A td incl_watermarked;
          workflow = get_workflow A td None;
          dd0 = \<lparr>dd_id = asset_id asset_data, dd_name = asset_name asset_data,
                 dd_workflows = None, dd_type_codes = None, dd_lods = None,
                 dd_softwares = None, dd_renders = None, dd_sizes = []\<rparr>;
          dd1 = (if asset_type asset_data = HDRI \<or> asset_type asset_data = TEXTURE then
                   dd0\<lparr>dd_workflows := Some [workflow],
                       dd_type_codes := Some (get_map_type_code_list A td workflow)\<rparr>
                 else if asset_type asset_data = MODEL then
                   (let lods = (case download_lods of
                                  None \<Rightarrow> download_lods_setting cfg | Some b \<Rightarrow> b);
                        dd = dd0\<lparr>dd_lods := Some (if lods then 1 else 0)\<rparr>
                    in if native_mesh \<and> renderer \<noteq> None
                       then dd\<lparr>dd_softwares := Some [software_dl_dcc],
                               dd_renders := Some [the renderer]\<rparr>
                       else dd\<lparr>dd_softwares := Some [''ALL_OTHERS'']\<rparr>)
                 else dd0)
      in case requested_sizes A cfg asset_data size_arg of
           Inl e \<Rightarrow> Inl e
         | Inr sizes \<Rightarrow>
             (case resolve_sizes (SIZES A) sizes_data sizes of
                Inl e \<Rightarrow> Inl e
              | Inr (szs, warnings) \<Rightarrow> Inr (dd1\<lparr>dd_sizes := szs\<rparr>, warnings)))"

text \<open>
  Modelled from the spec: an update of the type data for the examples, where the type
  data is a list of files. The spec wants "the primary directory's files taking
  precedence for any filename collision": the result is the new files and the old
  files whose names are not among the new ones, and with \<open>purge_maps\<close> the new files
  alone.
\<close>

definition base_name :: "string \<Rightarrow> string" where
  "base_name path = rev (takeWhile (\<lambda>c. c \<noteq> CHR ''/'') (rev path))"

definition merge_files :: "string list option \<Rightarrow> string list \<Rightarrow> bool \<Rightarrow> string list" where
  "merge_files old new purge_maps =
     (case old of
        None \<Rightarrow> new
      | Some fs \<Rightarrow>
          if purge_maps then new
          else new @ filter (\<lambda>f. base_name f \<notin> base_name ` set new) fs)"

text \<open>
  An instance for the examples: the ordering that the comment at the reversed scan
  describes (WM, HIRES, 18K, ..., 1K when reversed), and an asset whose type data is
  a list of strings: its available sizes in the examples of the download
  specification, its files in the examples of the scan of the libraries.
\<close>

definition SIZES_example :: "string list" where
  "SIZES_example = [''1K'', ''2K'', ''3K'', ''4K'', ''5K'', ''6K'', ''7K'', ''8K'', ''9K'',
     ''10K'', ''11K'', ''12K'', ''13K'', ''14K'', ''15K'', ''16K'', ''17K'', ''18K'',
     ''HIRES'', ''WM'']"

definition assets_example :: "string list assets_py" where
  "assets_example =
     \<lparr>SIZES = SIZES_example,
      get_size_list = (\<lambda>td wm. case td of None \<Rightarrow> []
                         | Some szs \<Rightarrow> if wm then szs else filter (\<lambda>s. s \<noteq> ''WM'') szs),
      get_workflow = (\<lambda>td fallback. Some ''METALNESS''),
      get_workflow_list = (\<lambda>td. [''METALNESS'']),
      get_map_type_code_list = (\<lambda>td wf. [''COL'', ''NRM'', ''ROUGHNESS'']),
      size_default = (\<lambda>td. None),
      get_maps_count = (\<lambda>td wf s. 0),
      get_lod_list = (\<lambda>td. None),
      get_mesh_count = (\<lambda>td lod mt. 0),
      has_mesh = (\<lambda>td mt native. False),
      update_type_data = merge_files\<rparr>"

definition settings_example :: download_settings where
  "settings_example =
     \<lparr>tex_res = Some ''2K'', model_res = Some ''NONE'', hdri_bg = Some ''8K'',
      brush_res = Some ''2K'', download_lods_setting = False\<rparr>"

definition metal001 :: "string list \<Rightarrow> string list AssetData" where
  "metal001 available =
     \<lparr>asset_id = 42, asset_type = TEXTURE, asset_name = ''Metal001'', is_local = None,
      is_purchased = Some True, downloaded_at = None, purchased_at = None,
      type_data = Some available\<rparr>"

text \<open>The size list and the warnings of a result of \<open>get_download_data\<close>.\<close>

definition sizes_of_result ::
  "exc + (download_data \<times> string list) \<Rightarrow> exc + (string list \<times> string list)" where
  "sizes_of_result r = (case r of Inl e \<Rightarrow> Inl e | Inr (dd, w) \<Rightarrow> Inr (dd_sizes dd, w))"

section \<open>The asset index (poliigon\_core/asset\_index.py)\<close>

text \<open>
  \<open>all_assets\<close> is a Python dictionary from asset ids to \<open>AssetData\<close>: an association
  list in insertion order, read with \<open>map_of\<close> and written with \<open>AList.update\<close> (an
  existing key keeps its place, a new key goes to the end). \<open>reporting_callable\<close> is
  the injected callback of \<open>capture_message\<close>: whether one is set, and the calls it
  has received. The query cache plays no part in the functions below, and the cache
  path is an argument of the two functions that use it.
\<close>

datatype report =
    Report_mismatch mismatch
  | Report_id_missing int
  | Report_asset_missing int
  | Report_key_error string

record 'p AssetIndex =
  all_assets :: "(int \<times> 'p AssetData) list"
  reporting_callable :: bool
  reported :: "(string \<times> report) list"

definition capture_message :: "'p AssetIndex \<Rightarrow> string \<Rightarrow> report \<Rightarrow> 'p AssetIndex" where
  "capture_message idx message code_msg =
     (if \<not> reporting_callable idx then idx
      else idx\<lparr>reported := reported idx @ [(message, code_msg)]\<rparr>)"

text \<open>
  Modelled from the spec: \<open>AssetData.update\<close> of assets.py, which is not among the
  sources. The spec has an asset "mutated in place by subsequent query results (non-null
  fields from the new snapshot overwrite, preserving unspecified fields) and by
  local-directory rescans (which only touch the local-file-derived subfields)", and
  the docstring of \<open>update_asset\<close> says "Any non-None entry will overwrite the old
  one"; \<open>asset_id\<close>, \<open>asset_type\<close> and \<open>asset_name\<close> are "not meant to be updated".
  So a flag or timestamp of the new record that is None leaves the old one, and type
  data that is None leaves the old type data. Type data that is not None is handed,
  with \<open>purge_maps\<close>, to the update method of the type data, which is the parameter
  \<open>update_type_data\<close>: what it does to the subfields is not fixed here.
\<close>

definition overwrite :: "'a option \<Rightarrow> 'a option \<Rightarrow> 'a option" where
  "overwrite old new = (case new of None \<Rightarrow> old | Some v \<Rightarrow> Some v)"

definition AssetData_update ::
  "'p assets_py \<Rightarrow> 'p AssetData \<Rightarrow> 'p AssetData \<Rightarrow> bool \<Rightarrow> 'p AssetData" where
  "AssetData_update A asset_data asset_data_new purge_maps =
     asset_data\<lparr>is_local := overwrite (is_local asset_data) (is_local asset_data_new),
                is_purchased := overwrite (is_purchased asset_data) (is_purchased asset_data_new),
                downloaded_at := overwrite (downloaded_at asset_data) (downloaded_at asset_data_new),
                purchased_at := overwrite (purchased_at asset_data) (purchased_at asset_data_new),
                type_data :=
                  (case type_data asset_data_new of
                     None \<Rightarrow> type_data asset_data
                   | Some type_data_new \<Rightarrow>
                       Some (update_type_data A (type_data asset_data) type_data_new
                               purge_maps))\<rparr>"

text \<open>
  \<open>update_asset\<close>. The result is what the call returns or raises, and the index
  after the call.
\<close>

definition update_asset ::
  "'p assets_py \<Rightarrow> 'p AssetIndex \<Rightarrow> int \<Rightarrow> 'p AssetData \<Rightarrow> bool
   \<Rightarrow> (exc + unit) \<times> 'p AssetIndex" where
  "update_asset A idx aid asset_data_new purge_maps =
     (case map_of (all_assets idx) aid of
        None \<Rightarrow> (Inr (), idx)
      | Some asset_data \<Rightarrow>
          if aid \<noteq> asset_id asset_data_new then
            (let msg = Id_mismatch aid (asset_id asset_data_new)
             in (Inl (ValueError msg),
                 capture_message idx ''assetindex_update_id_mismatch'' (Report_mismatch msg)))
          else if asset_name asset_data \<noteq> asset_name asset_data_new then
            (let msg = Name_mismatch (asset_name asset_data) (asset_name asset_data_new)
             in (Inl (ValueError msg),
                 capture_message idx ''assetindex_update_name_mismatch'' (Report_mismatch msg)))
          else if asset_type asset_data \<noteq> asset_type asset_data_new then
            (let msg = Type_mismatch (asset_type asset_data) (asset_type asset_data_new)
             in (Inl (ValueError msg),
                 capture_message idx ''assetindex_update_type_mismatch'' (Report_mismatch msg)))
          else
            (Inr (), idx\<lparr>all_assets :=
               AList.update aid (AssetData_update A asset_data asset_data_new purge_maps)
                 (all_assets idx)\<rparr>))"

text \<open>\<open>load_asset\<close>: "Stores or updates an AssetData in cache".\<close>

definition load_asset ::
  "'p assets_py \<Rightarrow> 'p AssetIndex \<Rightarrow> 'p AssetData \<Rightarrow> (exc + unit) \<times> 'p AssetIndex" where
  "load_asset A idx asset_data =
     (let aid = asset_id asset_data
      in if aid \<notin> fst ` set (all_assets idx)
         then (Inr (), idx\<lparr>all_assets := AList.update aid asset_data (all_assets idx)\<rparr>)
         else update_asset A idx aid asset_data False)"

text \<open>
  Every writer of \<open>all_assets\<close> stores a record under its own \<open>asset_id\<close>: the index is
  keyed by asset id.
\<close>

definition keyed_by_id :: "'p AssetIndex \<Rightarrow> bool" where
  "keyed_by_id idx = list_all (\<lambda>(k, a). asset_id a = k) (all_assets idx)"

subsection \<open>Locality queries\<close>

text \<open>
  \<open>check_asset_local_sizes\<close>: the dictionary from each size of the asset to whether
  maps of that size are present. \<open>get_maps_count\<close> is the length of the list that
  \<open>get_maps\<close> of assets.py returns.
\<close>

definition check_asset_local_sizes ::
  "'p assets_py \<Rightarrow> 'p AssetIndex \<Rightarrow> int \<Rightarrow> string option \<Rightarrow> bool \<Rightarrow> (string \<times> bool) list" where
  "check_asset_local_sizes A idx aid workflow incl_watermarked =
     (case map_of (all_assets idx) aid of
        None \<Rightarrow> []
      | Some asset_data \<Rightarrow>
          (let td = type_data asset_data;
               all_sizes = get_size_list A td incl_watermarked
           in foldl (\<lambda>local_sizes sz.
                  AList.update sz
                    (case workflow of
                       None \<Rightarrow> list_ex (\<lambda>workflow_check. get_maps_count A td workflow_check sz \<noteq> 0)
                                 (get_workflow_list A td)
                     | Some w \<Rightarrow> get_maps_count A td w sz \<noteq> 0)
                    local_sizes)
                [] all_sizes))"

text \<open>\<open>check_asset_local_lods\<close>: the same per LOD, for models only.\<close>

definition check_asset_local_lods ::
  "'p assets_py \<Rightarrow> 'p AssetIndex \<Rightarrow> int \<Rightarrow> ModelType option \<Rightarrow> bool \<Rightarrow> (string \<times> bool) list" where
  "check_asset_local_lods A idx aid model_type native_only =
     (case map_of (all_assets idx) aid of
        None \<Rightarrow> []
      | Some asset_data \<Rightarrow>
          if asset_type asset_data \<noteq> MODEL then []
          else
            (let model_data = type_data asset_data
             in case get_lod_list A model_data of
                  None \<Rightarrow> []
                | Some all_lods \<Rightarrow>
                    foldl (\<lambda>local_lods lod.
                        (let meshes_fbx = get_mesh_count A model_data lod FBX;
                             meshes_native = (case model_type of
                                                None \<Rightarrow> 0
                                              | Some mt \<Rightarrow> get_mesh_count A model_data lod mt);
                             lod_is_local = (if native_only then meshes_native > 0
                                             else meshes_fbx > 0 \<or> meshes_native > 0)
                         in AList.update lod lod_is_local local_lods))
                      [] all_lods))"

text \<open>
  \<open>check_asset_is_local\<close>. The lookup \<open>self.all_assets[asset_id]\<close> raises KeyError
  for an unknown id; the function catches it, reports it and returns False. With no
  filter the function returns the attribute \<open>is_local\<close>, which may be None, so the
  result is an optional flag.
\<close>

definition check_asset_is_local ::
  "'p assets_py \<Rightarrow> 'p AssetIndex \<Rightarrow> int \<Rightarrow> string option \<Rightarrow> string option \<Rightarrow> string option
   \<Rightarrow> ModelType option \<Rightarrow> bool \<Rightarrow> (exc + bool option) \<times> 'p AssetIndex" where
  "check_asset_is_local A idx aid workflow size_arg lod model_type native_only =
     (case map_of (all_assets idx) aid of
        None \<Rightarrow>
          (Inr (Some False),
           capture_message idx ''assetindex_asset_missing'' (Report_asset_missing aid))
      | Some asset_data \<Rightarrow>
          (let mesh_is_local =
                 (if asset_type asset_data = MODEL
                  then has_mesh A (type_data asset_data) model_type native_only
                  else True)
           in if workflow = None \<and> size_arg = None \<and> lod = None \<and> model_type = None
              then (Inr (is_local asset_data), idx)
              else
                (let incl_watermarked = (size_arg = Some ''WM'');
                     local_sizes = check_asset_local_sizes A idx aid workflow incl_watermarked;
                     tex_is_local =
                       (case size_arg of
                          None \<Rightarrow> list_ex (\<lambda>(k, v). v) local_sizes
                        | Some sz \<Rightarrow> sz \<in> fst ` set local_sizes
                                      \<and> map_of local_sizes sz = Some True)
                 in if asset_type asset_data \<noteq> MODEL then (Inr (Some tex_is_local), idx)
                    else
                      (let local_lods = check_asset_local_lods A idx aid model_type native_only;
                           lod_is_local =
                             (case lod of
                                None \<Rightarrow> list_ex (\<lambda>(k, v). v) local_lods
                              | Some l \<Rightarrow> l \<in> fst ` set local_lods
                                            \<and> map_of local_lods l = Some True)
                       in (Inr (Some (tex_is_local \<and> lod_is_local \<and> mesh_is_local)), idx)))))"

text \<open>An example index with one asset.\<close>

definition index_example :: "string list AssetIndex" where
  "index_example =
     \<lparr>all_assets = [(42, metal001 [''1K'', ''2K'', ''4K''])], reporting_callable = True,
      reported = []\<rparr>"

subsection \<open>The cache file\<close>

text \<open>
  \<open>save_cache\<close> and \<open>load_cache\<close>. The cache path, an attribute of the index, is
  an argument here, and \<open>disk\<close> gives the list stored in a cache file. What is kept
  of one record is a parameter: \<open>stored\<close> is the dictionary that \<open>json.loads\<close> gives
  back for what \<open>json.dumps(asdict(asset_data), default=vars)\<close> wrote (with or
  without gzip), and \<open>from_dict\<close> is \<open>AssetData._from_dict\<close> of assets.py.
  \<open>_verify_cache\<close> does nothing.
\<close>

definition save_cache ::
  "('p AssetData \<Rightarrow> 'j) \<Rightarrow> string \<Rightarrow> 'p AssetIndex \<Rightarrow> (string \<rightharpoonup> 'j list)
   \<Rightarrow> exc + (string \<rightharpoonup> 'j list)" where
  "save_cache stored path_cache idx disk =
     (if length path_cache < 2 then Inl FileNotFoundError
      else Inr (disk(path_cache \<mapsto> map (\<lambda>(k, asset_data). stored asset_data) (all_assets idx))))"

definition load_cache ::
  "('j \<Rightarrow> 'p AssetData) \<Rightarrow> string \<Rightarrow> 'p AssetIndex \<Rightarrow> (string \<rightharpoonup> 'j list)
   \<Rightarrow> (exc + unit) \<times> 'p AssetIndex" where
  "load_cache from_dict path_cache idx disk =
     (if length path_cache < 2 then (Inl FileNotFoundError, idx)
      else
        (case disk path_cache of
           None \<Rightarrow> (Inl FileNotFoundError, idx)
         | Some asset_list \<Rightarrow>
             (Inr (),
              idx\<lparr>all_assets :=
                foldl (\<lambda>al asset_dict.
                         (let asset_data = from_dict asset_dict
                          in AList.update (asset_id asset_data) asset_data al))
                  [] asset_list\<rparr>)))"

section \<open>Downloading one file (poliigon\_core/api.py)\<close>

text \<open>
  What the download functions see of the machine. \<open>files\<close> gives the size in bytes
  of what exists at a path (\<open>os.path.exists\<close>, \<open>os.path.getsize\<close>); \<open>protected\<close>
  are the paths for which the operating system refuses \<open>os.remove\<close> and
  \<open>os.rename\<close> with a PermissionError; \<open>windows\<close> says whether \<open>os.rename\<close> onto
  an existing file raises FileExistsError (Windows) or replaces the file (POSIX);
  \<open>requests\<close> are the URLs of the stream requests sent so far.
\<close>

record world =
  files :: "string \<rightharpoonup> nat"
  protected :: "string set"
  windows :: bool
  requests :: "string list"

definition os_remove :: "world \<Rightarrow> string \<Rightarrow> exc + world" where
  "os_remove w path =
     (if files w path = None then Inl FileNotFoundError
      else if path \<in> protected w then Inl PermissionError
      else Inr (w\<lparr>files := (files w)(path := None)\<rparr>))"

definition os_rename :: "world \<Rightarrow> string \<Rightarrow> string \<Rightarrow> exc + world" where
  "os_rename w src dst =
     (if files w src = None then Inl FileNotFoundError
      else if src \<in> protected w \<or> dst \<in> protected w then Inl PermissionError
      else if src = dst then Inr w
      else if files w dst \<noteq> None \<and> windows w then Inl FileExistsError
      else Inr (w\<lparr>files := (files w)(dst := files w src, src := None)\<rparr>))"

text \<open>\<open>os.path.join\<close> of two components, as posixpath has it.\<close>

definition os_path_join :: "string \<Rightarrow> string \<Rightarrow> string" where
  "os_path_join a b =
     (if b \<noteq> [] \<and> hd b = CHR ''/'' then b
      else if a = [] \<or> last a = CHR ''/'' then a @ b
      else a @ ''/'' @ b)"

definition get_filename :: "FileDownload \<Rightarrow> bool \<Rightarrow> string" where
  "get_filename d temp = (if temp then filename d @ DOWNLOAD_TEMP_SUFFIX else filename d)"

definition get_path :: "FileDownload \<Rightarrow> bool \<Rightarrow> string" where
  "get_path d temp = os_path_join (directory d) (get_filename d temp)"

definition check_exist_and_finished :: "world \<Rightarrow> string \<Rightarrow> FileDownload \<Rightarrow> bool" where
  "check_exist_and_finished w path download =
     (case files w path of
        None \<Rightarrow> False
      | Some n \<Rightarrow> int n = size_expected download)"

text \<open>\<open>delete_file\<close>: "Deliberately silencing all exceptions, here!"\<close>

definition delete_file :: "world \<Rightarrow> string \<Rightarrow> world" where
  "delete_file w path =
     (if files w path = None then w
      else (case os_remove w path of Inl e \<Rightarrow> w | Inr w' \<Rightarrow> w'))"

text \<open>
  The error strings of api.py. The strings that \<open>construct_error\<close> and the f-strings
  build from a URL, a file name, an asset id and the text of an exception are kept as
  values with these parts; the text of the exception is left out.
\<close>

definition ERR_CONNECTION :: string where
  "ERR_CONNECTION = ''Connection error''"

definition ERR_OS_NO_SPACE :: string where
  "ERR_OS_NO_SPACE = ''No space left on device''"

definition ERR_OS_NO_PERMISSION :: string where
  "ERR_OS_NO_PERMISSION = ''Disk permission denied''"

definition ERR_OS_WRITE :: string where
  "ERR_OS_WRITE = ''Failed to write file''"

definition ERR_USER_CANCEL_MSG :: string where
  "ERR_USER_CANCEL_MSG = ''User cancelled download''"

definition ERR_TIMEOUT :: string where
  "ERR_TIMEOUT = ''Connection timed out after 20 seconds''"

definition ERR_MISSING_STREAM :: string where
  "ERR_MISSING_STREAM = ''Requests response object missing from stream''"

definition ERR_URL_EXPIRED :: string where
  "ERR_URL_EXPIRED = ''Download URL expired''"

definition ERR_FILESIZE_MISMATCH :: string where
  "ERR_FILESIZE_MISMATCH = ''Download filesize mismatch''"

datatype error_text =
    Msg string
  | Request_error string "string option" string
  | Missing_stream_error string string
  | Streaming_error string int string
  | OS_write_error int

text \<open>
  What one iteration of \<open>stream.iter_content\<close> brings: a chunk of some length, a
  chunk that is None, or an exception (of the stream, or of writing the chunk). A
  cancellation comes from another thread, through \<open>set_status_cancelled\<close>; \<open>Cancel\<close>
  marks the place in the sequence where it arrives.
\<close>

datatype stream_event = Chunk nat | Chunk_None | Raises stream_exc | Cancel

text \<open>
  The response object of a stream request: the outcome of
  \<open>int(stream.headers["Content-Length"])\<close>, which raises when the header is missing
  or not a number, and what the iteration brings.
\<close>

record stream =
  content_length :: "exc + int"
  events :: "stream_event list"

text \<open>
  The \<open>ApiResponse\<close> that \<open>_request_stream\<close> returns: its flag, its error string,
  and the keys "CF-RAY" and "stream" (with "session") of its body, where present.
\<close>

record stream_reply =
  reply_ok :: bool
  reply_error :: "string option"
  reply_cf_ray :: "string option"
  reply_stream :: "stream option"

text \<open>
  The dataclass \<open>ApiResponse\<close>, with the bodies that \<open>download_asset_file\<close> builds.
  Its attribute \<open>error\<close> is the field \<open>err\<close> here, since \<open>FileDownload\<close> has an
  attribute of the same name.
\<close>

datatype body_error = Error_text string | Error_exception stream_exc

datatype body =
    Body_download FileDownload "string option"
  | Body_error body_error string
  | Body_message string string
  | Body_reply stream_reply

record ApiResponse =
  body :: body
  ok :: bool
  err :: "error_text option"

text \<open>
  What the surroundings decide during one call of \<open>download_asset_file\<close>: the reply
  to the stream request, whether a cancellation arrives while the request is under
  way, and whether \<open>open(path_temp, "wb")\<close> fails with an OSError.
\<close>

record dl_env =
  reply :: stream_reply
  cancel_during_request :: bool
  open_error :: "errno option"

text \<open>
  The loop over \<open>stream.iter_content\<close>: the unit, and the number of bytes written to
  the temp file so far. It ends with the exception raised, if any.
\<close>

fun stream_loop ::
  "stream_event list \<Rightarrow> FileDownload \<Rightarrow> nat \<Rightarrow> stream_exc option \<times> FileDownload \<times> nat" where
  "stream_loop [] d written = (None, d, written)"
| "stream_loop (Chunk_None # es) d written = stream_loop es d written"
| "stream_loop (Chunk n # es) d written =
     (let d' = d\<lparr>size_downloaded := size_downloaded d + int n\<rparr>
      in if status d' = CANCELLED then (None, d', written + n)
         else stream_loop es d' (written + n))"
| "stream_loop (Raises e # es) d written = (Some e, d, written)"
| "stream_loop (Cancel # es) d written = stream_loop es (set_status_cancelled d) written"

text \<open>
  The \<open>except\<close> clauses of the streaming loop: each marks the unit ERROR, deletes the
  temp file and returns an error response. The change of the connector's status on a
  timeout, and the closing of the session, have no part in what is modelled here.
\<close>

definition handle_stream_exception ::
  "stream_exc \<Rightarrow> FileDownload \<Rightarrow> world \<Rightarrow> string \<Rightarrow> string
   \<Rightarrow> ApiResponse \<times> FileDownload \<times> world" where
  "handle_stream_exception e download w path_temp cf_ray =
     (let d' = set_status_error download;
          w' = delete_file w path_temp;
          b = Body_error (Error_exception e) cf_ray
      in case e of
           Stream_ConnectionError \<Rightarrow>
             (\<lparr>body = b, ok = False, err = Some (Msg ERR_CONNECTION)\<rparr>, d', w')
         | Stream_Timeout \<Rightarrow>
             (\<lparr>body = b, ok = False, err = Some (Msg ERR_TIMEOUT)\<rparr>, d', w')
         | Stream_OSError en \<Rightarrow>
             (if en = ENOSPC
              then (\<lparr>body = b, ok = False, err = Some (Msg ERR_OS_NO_SPACE)\<rparr>, d', w')
              else if en = EACCES
              then (\<lparr>body = b, ok = False, err = Some (Msg ERR_OS_NO_PERMISSION)\<rparr>, d', w')
              else (\<lparr>body = b, ok = False,
                     err = Some (OS_write_error (FileDownload.asset_id download))\<rparr>, d', w'))
         | Stream_Exception \<Rightarrow>
             (\<lparr>body = b, ok = False,
               err = Some (Streaming_error (url download) (FileDownload.asset_id download)
                             (filename download))\<rparr>, d', w'))"

text \<open>
  \<open>download_asset_file\<close>, in three parts. First the end of the function, after the
  streaming loop has finished without an exception: "Download success" or "Download
  cancelled or error".
\<close>

definition check_stream_result ::
  "int \<Rightarrow> FileDownload \<Rightarrow> world \<Rightarrow> string \<Rightarrow> string \<Rightarrow> ApiResponse \<times> FileDownload \<times> world" where
  "check_stream_result stream_size download w path_temp cf_ray =
     (if size_expected download = size_downloaded download
         \<and> size_downloaded download = stream_size
      then
        (let d' = set_status_done download
         in (\<lparr>body = Body_download d' (Some cf_ray), ok = True, err = None\<rparr>, d', w))
      else
        (let msg = (if status download = CANCELLED then ERR_USER_CANCEL_MSG
                    else ERR_FILESIZE_MISMATCH)
         in (\<lparr>body = Body_error (Error_text msg) cf_ray, ok = False, err = Some (Msg msg)\<rparr>,
             set_status_error download, delete_file w path_temp)))"

text \<open>
  The \<open>try\<close> block: the temp file is opened for writing (which empties it), the
  chunks are written, and the file then holds what was written.
\<close>

definition write_stream ::
  "dl_env \<Rightarrow> stream \<Rightarrow> int \<Rightarrow> FileDownload \<Rightarrow> world \<Rightarrow> string \<Rightarrow> string
   \<Rightarrow> ApiResponse \<times> FileDownload \<times> world" where
  "write_stream env strm stream_size download w path_temp cf_ray =
     (case open_error env of
        Some en \<Rightarrow> handle_stream_exception (Stream_OSError en) download w path_temp cf_ray
      | None \<Rightarrow>
          (case stream_loop (events strm) download 0 of
             (raised, d', written) \<Rightarrow>
               (let w' = w\<lparr>files := (files w)(path_temp \<mapsto> written)\<rparr>
                in case raised of
                     Some e \<Rightarrow> handle_stream_exception e d' w' path_temp cf_ray
                   | None \<Rightarrow> check_stream_result stream_size d' w' path_temp cf_ray)))"

text \<open>
  The function itself. The result is the response returned (or the exception that
  leaves the function), the unit and the machine after the call.
\<close>

definition download_asset_file ::
  "dl_env \<Rightarrow> world \<Rightarrow> FileDownload \<Rightarrow> (exc + ApiResponse) \<times> FileDownload \<times> world" where
  "download_asset_file env w download =
     (let path_temp = get_path download True;
          file_exists_temp = check_exist_and_finished w path_temp download;
          path_final = get_path download False;
          file_exists_final = check_exist_and_finished w path_final download
      in if file_exists_temp \<or> file_exists_final then
           (let d1 = (set_status_done download)\<lparr>size_downloaded := size_expected download\<rparr>
            in (Inr \<lparr>body = Body_download d1 None, ok = True, err = None\<rparr>, d1, w))
         else
           (let w1 = w\<lparr>requests := requests w @ [url download]\<rparr>;
                res = reply env;
                d0 = (if cancel_during_request env then set_status_cancelled download
                      else download);
                cf_ray = (case reply_cf_ray res of None \<Rightarrow> [] | Some c \<Rightarrow> c)
            in if \<not> reply_ok res then
                 (Inr \<lparr>body = Body_reply res, ok = False,
                       err = (if reply_error res = Some ERR_URL_EXPIRED
                              then Some (Msg ERR_URL_EXPIRED)
                              else Some (Request_error (url download) (reply_error res)
                                           (filename download)))\<rparr>,
                  set_status_error d0, w1)
               else
                 (case reply_stream res of
                    None \<Rightarrow>
                      (Inr \<lparr>body = Body_message ''Requests response missing from stream'' cf_ray,
                            ok = False,
                            err = Some (Missing_stream_error (url download) (filename download))\<rparr>,
                       set_status_error d0, w1)
                  | Some strm \<Rightarrow>
                      (case content_length strm of
                         Inl e \<Rightarrow> (Inl e, d0, w1)
                       | Inr stream_size \<Rightarrow>
                           (case set_status_ongoing d0 of
                              (False, d1) \<Rightarrow>
                                (Inr \<lparr>body = Body_error (Error_text ERR_USER_CANCEL_MSG) cf_ray,
                                      ok = False, err = Some (Msg ERR_USER_CANCEL_MSG)\<rparr>,
                                 d1, w1)
                            | (True, d1) \<Rightarrow>
                                (case write_stream env strm stream_size
                                        (d1\<lparr>size_downloaded := 0\<rparr>) w1 path_temp cf_ray of
                                   (r, d', w') \<Rightarrow> (Inr r, d', w')))))))"

section \<open>Local files of the assets (poliigon\_core/asset\_index.py)\<close>

text \<open>
  What the scan of the library directories reads from the machine. \<open>walk\<close> is
  \<open>os.walk\<close>: for a directory, the triples of a path, its subdirectories and its
  files, top down. \<open>scan_files asset_type dir_asset workflow workflow_fallback\<close>
  stands for \<open>_analyze_files\<close> on the directory followed by the
  \<open>_prepare_..._update_asset_data\<close> function of the asset's type: the type data
  built from the files found (None where that function returns before it assigns the
  type data, as the ones for brushes, HDRIs and models do when no map is found) and the
  flag \<open>files_found\<close>. The classification of the file names rests on the
  vocabularies and classes of assets.py. \<open>clock\<close> is the time at which the scan of
  a directory ends.
\<close>

record 'p library_fs =
  walk :: "string \<Rightarrow> (string \<times> string list \<times> string list) list"
  scan_files :: "AssetType \<Rightarrow> string \<Rightarrow> string \<Rightarrow> string \<Rightarrow> 'p option \<times> bool"
  clock :: "string \<Rightarrow> int"





text \<open>
  \<open>update_from_directory\<close>. The update record is \<open>AssetData(asset_id, asset_type,
  asset_name)\<close> with the type data of the scan and every other attribute None. For an
  asset type outside the four of the \<open>if\<close>/\<open>elif\<close> chain \<open>files_found\<close> stays
  unbound, and reading it after \<open>update_asset\<close> raises.
\<close>

definition update_from_directory ::
  "'p assets_py \<Rightarrow> 'p library_fs \<Rightarrow> 'p AssetIndex \<Rightarrow> int \<Rightarrow> string \<Rightarrow> string
   \<Rightarrow> (exc + bool) \<times> 'p AssetIndex" where
  "update_from_directory A env idx aid dir_asset workflow_fallback =
     (case map_of (all_assets idx) aid of
        None \<Rightarrow>
          (Inl KeyError,
           capture_message idx ''assetindex_update_id_missing'' (Report_id_missing aid))
      | Some asset_data \<Rightarrow>
          (let workflow = (case get_workflow A (type_data asset_data) (Some workflow_fallback) of
                             None \<Rightarrow> workflow_fallback | Some wfl \<Rightarrow> wfl);
               scanned = (if asset_type asset_data = SUBSTANCE then None
                          else Some (scan_files env (asset_type asset_data) dir_asset workflow
                                       workflow_fallback));
               asset_data_update =
                 \<lparr>asset_id = aid, asset_type = asset_type asset_data,
                  asset_name = asset_name asset_data, is_local = None, is_purchased = None,
                  downloaded_at = None, purchased_at = None,
                  type_data = (case scanned of None \<Rightarrow> None | Some (td, ff) \<Rightarrow> td)\<rparr>
           in case update_asset A idx aid asset_data_update False of
                (Inl e, idx1) \<Rightarrow> (Inl e, idx1)
              | (Inr u, idx1) \<Rightarrow>
                  (case scanned of
                     None \<Rightarrow> (Inl UnboundLocalError, idx1)
                   | Some (td, files_found) \<Rightarrow>
                       if files_found then
                         (Inr True,
                          idx1\<lparr>all_assets :=
                            map (\<lambda>(k, a). if k = aid
                                   then (k, a\<lparr>downloaded_at := Some (clock env dir_asset),
                                              is_local := Some True\<rparr>)
                                   else (k, a)) (all_assets idx1)\<rparr>)
                       else (Inr False, idx1))))"














text \<open>
  Example: two libraries, \<open>/lib1\<close> and \<open>/lib2\<close>. The texture Metal001 has its color
  map in both and a normal map in \<open>/lib2\<close> only. The model Chair001 has its mesh in
  both, but texture maps in \<open>/lib2\<close> only: for its directory in \<open>/lib1\<close>
  \<open>_prepare_model_update_asset_data\<close> finds no texture map and returns False before
  it assigns the model, so the scan of that directory gives no type data. The type
  data of the examples is the list of the files, empty in the index before the scan.
  \<open>/lib/Metal001\<close> is a download directory that holds one temp file.
\<close>

definition library_example :: "string list library_fs" where
  "library_example =
     \<lparr>walk = (\<lambda>d. if d = ''/lib1''
                    then [(''/lib1'', [''Metal001'', ''Chair001''], []),
                          (''/lib1/Metal001'', [], [''Metal001_COL_4K.jpg'']),
                          (''/lib1/Chair001'', [], [''Chair001_LOD0.fbx''])]
                    else if d = ''/lib2''
                    then [(''/lib2'', [''Metal001'', ''Chair001'', ''Other''], []),
                          (''/lib2/Metal001'', [],
                           [''Metal001_COL_4K.jpg'', ''Metal001_NRM_4K.jpg'']),
                          (''/lib2/Chair001'', [],
                           [''Chair001_COL_2K.jpg'', ''Chair001_LOD0.fbx'']),
                          (''/lib2/Other'', [], [])]
                    else if d = ''/lib/Metal001''
                    then [(''/lib/Metal001'', [], [''Metal001_COL_4K.jpgdl''])]
                    else []),
      scan_files = (\<lambda>ty d wfl fallback.
                      if d = ''/lib1/Metal001''
                      then (Some [''/lib1/Metal001/Metal001_COL_4K.jpg''], True)
                      else if d = ''/lib2/Metal001''
                      then (Some [''/lib2/Metal001/Metal001_COL_4K.jpg'',
                                  ''/lib2/Metal001/Metal001_NRM_4K.jpg''], True)
                      else if d = ''/lib2/Chair001''
                      then (Some [''/lib2/Chair001/Chair001_COL_2K.jpg'',
                                  ''/lib2/Chair001/Chair001_LOD0.fbx''], True)
                      else (None, False)),
      clock = (\<lambda>d. 1700000000)\<rparr>"

definition chair001 :: "string list AssetData" where
  "chair001 =
     \<lparr>asset_id = 7, asset_type = MODEL, asset_name = ''Chair001'', is_local = None,
      is_purchased = Some True, downloaded_at = None, purchased_at = None,
      type_data = Some []\<rparr>"

definition index_library_example :: "string list AssetIndex" where
  "index_library_example =
     \<lparr>all_assets = [(42, metal001 []), (7, chair001)],
      reporting_callable = True, reported = []\<rparr>"
section \<open>Downloading one asset (poliigon\_core/addon.py)\<close>

text \<open>
  \<open>rename_downloads\<close>: the loop over the units with its two accumulators
  \<open>all_successful\<close> and \<open>error_msg\<close>. The result is the pair returned (or the
  exception that leaves the function), the units and the machine after the call.
\<close>

definition note_error :: "FileDownload \<Rightarrow> string \<Rightarrow> string" where
  "note_error download error_msg =
     (case FileDownload.error download of
        None \<Rightarrow> error_msg
      | Some e \<Rightarrow> if e = [] then error_msg else e)"

definition keep_unit ::
  "FileDownload \<Rightarrow> 'r \<times> FileDownload list \<times> world \<Rightarrow> 'r \<times> FileDownload list \<times> world" where
  "keep_unit download r = (case r of (res, dl_list, w) \<Rightarrow> (res, download # dl_list, w))"

fun rename_loop ::
  "world \<Rightarrow> FileDownload list \<Rightarrow> bool \<Rightarrow> string
   \<Rightarrow> (exc + (bool \<times> string)) \<times> FileDownload list \<times> world" where
  "rename_loop w [] all_successful error_msg = (Inr (all_successful, error_msg), [], w)"
| "rename_loop w (download # rest) all_successful error_msg =
     (let path_temp = get_path download True;
          temp_exists = (files w path_temp \<noteq> None);
          path_final = get_path download False;
          final_exists = (files w path_final \<noteq> None)
      in if \<not> temp_exists \<and> final_exists
         then keep_unit download (rename_loop w rest all_successful error_msg)
         else
           (case os_rename w path_temp path_final of
              Inr w' \<Rightarrow>
                keep_unit download
                  (rename_loop w' rest all_successful (note_error download error_msg))
            | Inl FileExistsError \<Rightarrow>
                (case os_remove w path_temp of
                   Inl e \<Rightarrow> (Inl e, download # rest, w)
                 | Inr w' \<Rightarrow>
                     keep_unit download
                       (rename_loop w' rest all_successful (note_error download error_msg)))
            | Inl FileNotFoundError \<Rightarrow>
                (let d' = download\<lparr>status := ERROR,
                                   error := Some (''Missing file: '' @ path_temp)\<rparr>
                 in keep_unit d' (rename_loop w rest False (note_error d' error_msg)))
            | Inl PermissionError \<Rightarrow>
                (let d' = download\<lparr>status := ERROR,
                                   error := Some (''Lacking permission to rename downloaded file: ''
                                                  @ path_temp)\<rparr>
                 in keep_unit d' (rename_loop w rest False (note_error d' error_msg)))
            | Inl e \<Rightarrow> (Inl e, download # rest, w)))"

definition rename_downloads ::
  "world \<Rightarrow> FileDownload list \<Rightarrow> (exc + (bool \<times> string)) \<times> FileDownload list \<times> world" where
  "rename_downloads w dl_list = rename_loop w dl_list True []"

text \<open>
  The state of the addon that \<open>download_asset\<close> reads and writes: the dictionary
  \<open>download_queue\<close> (its entries are of no concern here), the set
  \<open>download_cancelled\<close>, the asset index, and the calls that the \<open>done_callback\<close>
  has received, each with the asset id and the error passed, if any.
\<close>

record ('q, 'p) addon_state =
  download_queue :: "int \<rightharpoonup> 'q"
  download_cancelled :: "int set"
  asset_index :: "'p AssetIndex"
  done_calls :: "(int \<times> error_text option) list"

text \<open>\<open>str.endswith\<close>.\<close>

definition endswith :: "string \<Rightarrow> string \<Rightarrow> bool" where
  "endswith s suffix =
     (length suffix \<le> length s \<and> drop (length s - length suffix) s = suffix)"

text \<open>
  \<open>update_asset_data\<close>: the rescan of the download directory into the asset index.
  \<open>os.path.exists\<close> is read off the walk (the walk of a directory that does not exist
  is empty, that of an existing one starts with the directory itself). The files
  collected only decide whether the index is asked to scan; \<open>update_from_directory\<close>
  runs with its default fallback workflow, its value is dropped, and what it raises
  (KeyError for an asset that is not in the index) leaves the function.
\<close>

definition update_asset_data ::
  "'p assets_py \<Rightarrow> 'p library_fs \<Rightarrow> 'p AssetIndex \<Rightarrow> int \<Rightarrow> string
   \<Rightarrow> (exc + unit) \<times> 'p AssetIndex" where
  "update_asset_data A env idx aid download_dir =
     (if walk env download_dir = [] then (Inr (), idx)
      else
        (let asset_files =
               concat (map (\<lambda>(path, dirs, fls).
                              map (os_path_join path)
                                (filter (\<lambda>f. \<not> endswith f DOWNLOAD_TEMP_SUFFIX) fls))
                         (walk env download_dir))
         in if length asset_files = 0 then (Inr (), idx)
            else
              (case update_from_directory A env idx aid download_dir ''REGULAR'' of
                 (Inl e, idx1) \<Rightarrow> (Inl e, idx1)
               | (Inr found, idx1) \<Rightarrow> (Inr (), idx1))))"

text \<open>
  What the middle of \<open>download_asset\<close> ends with. The middle (the download
  specification, the destination directory, \<open>os.makedirs\<close>, and the retry loop with
  its polls of the worker threads) is given by its outcome: \<open>os.makedirs\<close> raised a
  PermissionError (True) or another OSError; or a poll found an error, with the error
  of the response, the units, and the exception that \<open>cancel_downloads\<close> raised after
  the callback, if any; or an exception left the middle; or the loops were left, with
  \<open>all_done\<close>, \<open>user_cancel\<close>, the units and the download directory (\<open>any_error\<close> is
  False there).
\<close>

datatype loop_outcome =
    Makedirs_failed bool
  | Poll_error "error_text option" "FileDownload list" "exc option"
  | Loop_raised exc
  | Loop_left bool bool "FileDownload list" string

text \<open>
  \<open>download_asset\<close>. \<open>run\<close> is the middle, which works on the machine;
  \<open>has_done_callback\<close> says whether the caller passed a \<open>done_callback\<close> (calling the
  default None raises TypeError); \<open>env\<close> is the file system as the rescan of the
  download directory sees it. An exception of \<open>rename_downloads\<close> or of
  \<open>update_asset_data\<close> leaves the function before the asset is taken from the queue
  and before the callback. The result is the value returned (or the exception), the
  addon state, the units and the machine.
\<close>

definition download_asset ::
  "'p assets_py \<Rightarrow> 'p library_fs \<Rightarrow> ('q, 'p) addon_state \<Rightarrow> world \<Rightarrow> int \<Rightarrow> bool
   \<Rightarrow> (world \<Rightarrow> loop_outcome \<times> world)
   \<Rightarrow> (exc + bool) \<times> ('q, 'p) addon_state \<times> FileDownload list \<times> world" where
  "download_asset A env st w aid has_done_callback run =
     (let user_cancel = (aid \<in> download_cancelled st)
      in if user_cancel then
           (if download_queue st aid = None then (Inl KeyError, st, [], w)
            else (Inr False,
                  st\<lparr>download_queue := (download_queue st)(aid := None),
                     download_cancelled := download_cancelled st - {aid}\<rparr>, [], w))
         else if download_queue st aid = None then (Inr False, st, [], w)
         else
           (case run w of
              (Makedirs_failed permission, w1) \<Rightarrow>
                if has_done_callback then
                  (Inr False,
                   st\<lparr>done_calls := done_calls st
                        @ [(aid, Some (Msg (if permission then ERR_OS_NO_PERMISSION
                                            else ERR_OS_WRITE)))],
                      download_queue := (download_queue st)(aid := None)\<rparr>, [], w1)
                else (Inl TypeError, st, [], w1)
            | (Poll_error res_error dl_list raised, w1) \<Rightarrow>
                if has_done_callback then
                  ((case raised of None \<Rightarrow> Inr False | Some e \<Rightarrow> Inl e),
                   st\<lparr>done_calls := done_calls st @ [(aid, res_error)]\<rparr>, dl_list, w1)
                else (Inl TypeError, st, dl_list, w1)
            | (Loop_raised e, w1) \<Rightarrow> (Inl e, st, [], w1)
            | (Loop_left all_done user_cancel' dl_list download_dir, w1) \<Rightarrow>
                (case (if all_done \<and> \<not> user_cancel' then rename_downloads w1 dl_list
                       else (Inr (True, []), dl_list, w1)) of
                   (Inl e, dl_list', w2) \<Rightarrow> (Inl e, st, dl_list', w2)
                 | (Inr renamed, dl_list', w2) \<Rightarrow>
                     (case update_asset_data A env (asset_index st) aid download_dir of
                        (Inl e, idx1) \<Rightarrow> (Inl e, st\<lparr>asset_index := idx1\<rparr>, dl_list', w2)
                      | (Inr u, idx1) \<Rightarrow>
                          (Inr True,
                           st\<lparr>asset_index := idx1,
                              download_queue := (download_queue st)(aid := None),
                              download_cancelled := download_cancelled st - {aid},
                              done_calls := (if has_done_callback
                                             then done_calls st @ [(aid, None)]
                                             else done_calls st)\<rparr>,
                           dl_list', w2)))))"

text \<open>
  The download state that \<open>download_asset_sync\<close> keeps in \<open>asset_data.state.dl\<close> (a
  class of assets.py): the cancel flag, and the error set by \<open>set_error\<close>. The
  state given to the function below is the one after its call of \<open>start()\<close>.
\<close>

record dl_state =
  is_cancelled :: bool
  has_error :: bool
  error_msg :: "string option"

definition set_error :: "dl_state \<Rightarrow> string \<Rightarrow> dl_state" where
  "set_error s msg = s\<lparr>has_error := True, error_msg := Some msg\<rparr>"

text \<open>
  The middle of \<open>download_asset_sync\<close>, by its outcome: \<open>os.makedirs\<close> raised, with
  the message stored; or \<open>_asset_download_loop\<close> returned \<open>all_done\<close> and the units.
\<close>

datatype sync_outcome =
    Sync_makedirs_failed string
  | Sync_loop_returned bool "FileDownload list"

definition download_asset_sync ::
  "dl_state \<Rightarrow> world \<Rightarrow> (dl_state \<Rightarrow> world \<Rightarrow> sync_outcome \<times> dl_state \<times> world)
   \<Rightarrow> (exc + bool) \<times> dl_state \<times> FileDownload list \<times> world" where
  "download_asset_sync s w run =
     (if is_cancelled s then (Inr False, s, [], w)
      else
        (case run s w of
           (Sync_makedirs_failed msg, s1, w1) \<Rightarrow> (Inr False, set_error s1 msg, [], w1)
         | (Sync_loop_returned all_done dl_list, s1, w1) \<Rightarrow>
             if \<not> all_done \<or> has_error s1 \<or> is_cancelled s1 then (Inr False, s1, dl_list, w1)
             else
               (case rename_downloads w1 dl_list of
                  (Inl e, dl_list', w2) \<Rightarrow> (Inl e, s1, dl_list', w2)
                | (Inr (result, error_msg'), dl_list', w2) \<Rightarrow>
                    if \<not> result then (Inr False, set_error s1 error_msg', dl_list', w2)
                    else (Inr True, s1, dl_list', w2))))"

text \<open>Examples: a unit waiting in the pool, machines, and replies of the server.\<close>

definition dl_waiting_example :: FileDownload where
  "dl_waiting_example = (new_FileDownload 42 ''https://cdn/f'' ''Metal001_COL_4K.jpg'' 3000)
     \<lparr>status := WAITING, directory := ''/lib/Metal001''\<rparr>"

definition dl_expects_2048_example :: FileDownload where
  "dl_expects_2048_example = dl_waiting_example\<lparr>size_expected := 2048\<rparr>"

definition world_example :: "(string \<times> nat) list \<Rightarrow> world" where
  "world_example fs = \<lparr>files = map_of fs, protected = {}, windows = False, requests = []\<rparr>"

definition env_example :: "int \<Rightarrow> stream_event list \<Rightarrow> dl_env" where
  "env_example n es =
     \<lparr>reply = \<lparr>reply_ok = True, reply_error = None, reply_cf_ray = Some ''ray1'',
                reply_stream = Some \<lparr>content_length = Inr n, events = es\<rparr>\<rparr>,
      cancel_during_request = False, open_error = None\<rparr>"

definition addon_example :: "(unit, string list) addon_state" where
  "addon_example =
     \<lparr>download_queue = [42 \<mapsto> ()], download_cancelled = {},
      asset_index = index_library_example, done_calls = []\<rparr>"

text \<open>
  A unit that the workers report done, on a machine where the operating system
  refuses to rename its temp file, and a download state of \<open>download_asset_sync\<close>.
\<close>

definition dl_finished_example :: FileDownload where
  "dl_finished_example = dl_waiting_example\<lparr>size_downloaded := 3000, status := DONE\<rparr>"

definition world_locked_example :: world where
  "world_locked_example =
     (world_example [(''/lib/Metal001/Metal001_COL_4K.jpgdl'', 3000)])
       \<lparr>protected := {''/lib/Metal001/Metal001_COL_4K.jpgdl''}\<rparr>"

definition dl_state_example :: dl_state where
  "dl_state_example = \<lparr>is_cancelled = False, has_error = False, error_msg = None\<rparr>"

section \<open>Properties of the status state machine\<close>

lemma set_status_cancelled_final:
  "is_final (status d) \<Longrightarrow> set_status_cancelled d = d"
  by (auto simp: is_final_def set_status_cancelled_def)

lemma apply_guarded_final:
  "guarded_op x \<Longrightarrow> is_final (status d) \<Longrightarrow> is_final (status (apply_status_op x d))"
  by (cases x)
     (auto simp: is_final_def set_status_cancelled_def set_status_done_def set_status_error_def)

text \<open>
  C1, as stated, fails: from DONE, \<open>set_status_ongoing\<close> (which guards CANCELLED only)
  moves the unit to ONGOING, and a re-submission through \<open>schedule_downloads\<close> moves it
  to WAITING.
\<close>

theorem C1_final_state_overwritten:
  "status dl_done_example = DONE
   \<and> status (snd (set_status_ongoing dl_done_example)) = ONGOING
   \<and> map status (schedule_downloads [dl_done_example] ''/lib/Metal001'') = [WAITING]"
  by (simp add: dl_done_example_def new_FileDownload_def set_status_ongoing_def
      schedule_downloads_def)

text \<open>
  C1, amended: once the status of a unit is DONE or ERROR, no sequence of
  \<open>set_status_cancelled\<close>, \<open>set_status_done\<close> and \<open>set_status_error\<close> calls changes it
  to WAITING, ONGOING or CANCELLED (it stays DONE or ERROR), and
  \<open>set_status_cancelled\<close> on such a unit changes nothing at all.
\<close>

theorem C1_final_states_guarded:
  assumes "is_final (status d)" and "list_all guarded_op ops"
  shows "status (foldl (\<lambda>u x. apply_status_op x u) d ops) \<notin> {WAITING, ONGOING, CANCELLED}
         \<and> is_final (status (foldl (\<lambda>u x. apply_status_op x u) d ops))
         \<and> set_status_cancelled d = d"
proof -
  have "is_final (status (foldl (\<lambda>u x. apply_status_op x u) d ops))"
    using assms
  proof (induction ops arbitrary: d)
    case Nil
    then show ?case by simp
  next
    case (Cons x xs)
    then show ?case by (simp add: apply_guarded_final)
  qed
  moreover have "set_status_cancelled d = d"
    using assms(1) by (rule set_status_cancelled_final)
  ultimately show ?thesis by (auto simp: is_final_def)
qed

theorem C1_final_states_guarded_witness:
  "is_final (status dl_done_example)
   \<and> list_all guarded_op [Op_cancelled, Op_error, Op_cancelled, Op_done]
   \<and> status (foldl (\<lambda>u x. apply_status_op x u) dl_done_example
        [Op_cancelled, Op_error, Op_cancelled, Op_done]) \<notin> {WAITING, ONGOING, CANCELLED}
   \<and> set_status_cancelled dl_done_example = dl_done_example"
proof -
  have f: "is_final (status dl_done_example)"
    by (simp add: is_final_def dl_done_example_def new_FileDownload_def)
  have g: "list_all guarded_op [Op_cancelled, Op_error, Op_cancelled, Op_done]"
    by simp
  from C1_final_states_guarded [OF f g] f g show ?thesis
    by blast
qed

section \<open>Properties of the size fallback\<close>

lemma find_append_case:
  "find P (xs @ ys) = (case find P xs of None \<Rightarrow> find P ys | Some x \<Rightarrow> Some x)"
  by (induction xs) auto

lemma find_rev_last_filter:
  "find P (rev xs) = (if filter P xs = [] then None else Some (last (filter P xs)))"
  by (induction xs) (auto simp: find_append_case split: option.splits)

lemma resolve_sizes_unavailable:
  assumes "r \<notin> Some ` set sizes_data"
  shows "resolve_sizes sizes_all sizes_data [r] =
     (if filter (\<lambda>s. s \<in> set sizes_data) sizes_all \<noteq> []
      then Inr ([last (filter (\<lambda>s. s \<in> set sizes_data) sizes_all)], [])
      else case sizes_all of [] \<Rightarrow> Inl IndexError
           | s0 # rest \<Rightarrow> Inr ([s0], [MSG_MISSING_SIZES]))"
  using assms
  by (cases r)
     (auto simp: resolve_sizes_def List.map_filter_simps find_rev_last_filter split: list.splits)

lemma get_download_data_sizes:
  "sizes_of_result (get_download_data A cfg dcc a size_arg lods native renderer) =
     (case requested_sizes A cfg a size_arg of
        Inl e \<Rightarrow> Inl e
      | Inr sizes \<Rightarrow>
          resolve_sizes (SIZES A)
            (get_size_list A (type_data a) (size_arg = Some ''WM'')) sizes)"
  by (simp add: get_download_data_def sizes_of_result_def Let_def split: sum.splits prod.splits)

text \<open>
  C3, as stated, fails in its last part: when the reversed scan finds no match, the
  size requested from the server is \<open>SIZES[0]\<close>, the smallest size of the global
  ordering, not the smallest size available for the asset. Here the asset offers 24K
  only, 8K is requested, and the specification asks for 1K, which the asset does not
  offer.
\<close>

theorem C3_fallback_not_an_available_size:
  "get_size_list assets_example (type_data (metal001 [''24K''])) False = [''24K'']
   \<and> sizes_of_result (get_download_data assets_example settings_example ''Blender''
        (metal001 [''24K'']) (Some ''8K'') None False None)
      = Inr ([''1K''], [MSG_MISSING_SIZES])
   \<and> ''1K'' \<notin> set (get_size_list assets_example (type_data (metal001 [''24K''])) False)"
  by (simp add: get_download_data_sizes requested_sizes_def resolve_sizes_def
      assets_example_def SIZES_example_def metal001_def List.map_filter_simps)

text \<open>
  C3, amended: in \<open>get_download_data\<close>, if the requested size \<open>r\<close> (the argument,
  or the default of the settings when there is none) is not among the asset's
  available sizes \<open>avail\<close>, the size list of the specification is the first
  available size of the scan of \<open>SIZES\<close> from largest to smallest, that is the last
  element of \<open>SIZES\<close> that is available, with no warning; if no size of \<open>SIZES\<close> is
  available, it is \<open>SIZES[0]\<close>, the smallest size of the global ordering, with the
  warning, and that size is not among the asset's available sizes. (With an empty
  \<open>SIZES\<close> the access \<open>SIZES[0]\<close> raises.)
\<close>

theorem C3_size_fallback:
  assumes req: "requested_sizes A cfg a size_arg = Inr [r]"
    and avail: "avail = get_size_list A (type_data a) (size_arg = Some ''WM'')"
    and unav: "r \<notin> Some ` set avail"
    and ord: "in_order = filter (\<lambda>s. s \<in> set avail) (SIZES A)"
  shows "sizes_of_result (get_download_data A cfg dcc a size_arg lods native renderer) =
           (if in_order \<noteq> [] then Inr ([last in_order], [])
            else if SIZES A \<noteq> [] then Inr ([hd (SIZES A)], [MSG_MISSING_SIZES])
            else Inl IndexError)
         \<and> (in_order \<noteq> [] \<longrightarrow> last in_order \<in> set avail
              \<and> find (\<lambda>s. s \<in> set avail) (rev (SIZES A)) = Some (last in_order))
         \<and> (in_order = [] \<and> SIZES A \<noteq> [] \<longrightarrow> hd (SIZES A) \<notin> set avail)"
proof -
  have one: "sizes_of_result (get_download_data A cfg dcc a size_arg lods native renderer) =
     (if in_order \<noteq> [] then Inr ([last in_order], [])
      else if SIZES A \<noteq> [] then Inr ([hd (SIZES A)], [MSG_MISSING_SIZES])
      else Inl IndexError)"
    using unav
    by (simp add: get_download_data_sizes req resolve_sizes_unavailable
        avail [symmetric] ord [symmetric] split: list.splits)
  have two: "last in_order \<in> set avail
      \<and> find (\<lambda>s. s \<in> set avail) (rev (SIZES A)) = Some (last in_order)"
    if ne: "in_order \<noteq> []"
  proof -
    from ne have "last in_order \<in> set in_order" by simp
    then have "last in_order \<in> set avail" unfolding ord by simp
    moreover have "find (\<lambda>s. s \<in> set avail) (rev (SIZES A)) = Some (last in_order)"
      using ne by (simp add: find_rev_last_filter ord)
    ultimately show ?thesis by simp
  qed
  have three: "hd (SIZES A) \<notin> set avail" if e: "in_order = []" and ne: "SIZES A \<noteq> []"
  proof
    assume m: "hd (SIZES A) \<in> set avail"
    from ne m have "hd (SIZES A) \<in> set (filter (\<lambda>s. s \<in> set avail) (SIZES A))"
      by (cases "SIZES A") auto
    with e show False unfolding ord by simp
  qed
  from one two three show ?thesis by blast
qed

text \<open>
  The instance of the specification: available sizes 1K, 2K, 4K and a request for 8K
  give exactly 4K, without a warning.
\<close>

theorem C3_size_fallback_witness:
  "sizes_of_result (get_download_data assets_example settings_example ''Blender''
       (metal001 [''1K'', ''2K'', ''4K'']) (Some ''8K'') None False None)
     = Inr ([''4K''], [])
   \<and> ''4K'' \<in> set [''1K'', ''2K'', ''4K'']
   \<and> ''8K'' \<notin> set [''1K'', ''2K'', ''4K'']"
proof -
  have rq: "requested_sizes assets_example settings_example (metal001 [''1K'', ''2K'', ''4K''])
      (Some ''8K'') = Inr [Some ''8K'']"
    by (simp add: requested_sizes_def)
  have av: "[''1K'', ''2K'', ''4K'']
      = get_size_list assets_example (type_data (metal001 [''1K'', ''2K'', ''4K'']))
          (Some ''8K'' = Some ''WM'')"
    by (simp add: assets_example_def metal001_def)
  have un: "Some ''8K'' \<notin> Some ` set [''1K'', ''2K'', ''4K'']"
    by simp
  have io: "[''1K'', ''2K'', ''4K'']
      = filter (\<lambda>s. s \<in> set [''1K'', ''2K'', ''4K'']) (SIZES assets_example)"
    by (simp add: assets_example_def SIZES_example_def)
  from C3_size_fallback [OF rq av un io, of "''Blender''" None False None]
  show ?thesis
    by simp
qed

section \<open>Properties of the asset index\<close>

text \<open>
  C9: for an asset id stored in the index (under its own id, as every writer of the
  index stores it), \<open>update_asset\<close> with a new \<open>AssetData\<close> whose \<open>asset_id\<close>,
  \<open>asset_name\<close> or \<open>asset_type\<close> differs from the stored record raises ValueError
  with the mismatch message, and the stored records are what they were before the
  call.
\<close>

theorem C9_update_asset_mismatch:
  assumes stored: "map_of (all_assets idx) aid = Some stored"
    and keyed: "asset_id stored = aid"
    and differs: "asset_id new \<noteq> asset_id stored \<or> asset_name new \<noteq> asset_name stored
                  \<or> asset_type new \<noteq> asset_type stored"
  shows "fst (update_asset A idx aid new purge_maps) =
           Inl (ValueError
             (if asset_id new \<noteq> asset_id stored then Id_mismatch aid (asset_id new)
              else if asset_name new \<noteq> asset_name stored
                   then Name_mismatch (asset_name stored) (asset_name new)
              else Type_mismatch (asset_type stored) (asset_type new)))
         \<and> all_assets (snd (update_asset A idx aid new purge_maps)) = all_assets idx
         \<and> map_of (all_assets (snd (update_asset A idx aid new purge_maps))) aid = Some stored"
  using assms
  by (auto simp: update_asset_def capture_message_def Let_def)

text \<open>An update that would rename asset 42 is refused, and the index keeps its record.\<close>

theorem C9_update_asset_mismatch_witness:
  "fst (update_asset assets_example index_example 42 ((metal001 [''8K''])\<lparr>asset_name := ''Wood002''\<rparr>) False)
     = Inl (ValueError (Name_mismatch ''Metal001'' ''Wood002''))
   \<and> all_assets (snd (update_asset assets_example index_example 42
        ((metal001 [''8K''])\<lparr>asset_name := ''Wood002''\<rparr>) False)) = all_assets index_example"
proof -
  have s: "map_of (all_assets index_example) 42 = Some (metal001 [''1K'', ''2K'', ''4K''])"
    by (simp add: index_example_def)
  have k: "asset_id (metal001 [''1K'', ''2K'', ''4K'']) = 42"
    by (simp add: metal001_def)
  have d: "asset_id ((metal001 [''8K''])\<lparr>asset_name := ''Wood002''\<rparr>)
             \<noteq> asset_id (metal001 [''1K'', ''2K'', ''4K''])
           \<or> asset_name ((metal001 [''8K''])\<lparr>asset_name := ''Wood002''\<rparr>)
              \<noteq> asset_name (metal001 [''1K'', ''2K'', ''4K''])
           \<or> asset_type ((metal001 [''8K''])\<lparr>asset_name := ''Wood002''\<rparr>)
              \<noteq> asset_type (metal001 [''1K'', ''2K'', ''4K''])"
    by (simp add: metal001_def)
  from C9_update_asset_mismatch [OF s k d, of assets_example False] show ?thesis
    by (simp add: metal001_def)
qed

text \<open>
  C10: for an asset id that is not in the index, \<open>check_asset_is_local\<close> returns
  False for every combination of the workflow, size, LOD, model type and native-only
  arguments; it raises nothing and leaves the stored assets as they are.
\<close>

theorem C10_check_asset_is_local_unknown_id:
  assumes "aid \<notin> fst ` set (all_assets idx)"
  shows "fst (check_asset_is_local A idx aid workflow size_arg lod model_type native_only)
           = Inr (Some False)
         \<and> all_assets (snd (check_asset_is_local A idx aid workflow size_arg lod model_type
                              native_only)) = all_assets idx"
proof -
  from assms have "map_of (all_assets idx) aid = None"
    by (simp add: map_of_eq_None_iff)
  then show ?thesis
    by (simp add: check_asset_is_local_def capture_message_def)
qed

text \<open>Asset 7 is not in the example index.\<close>

theorem C10_check_asset_is_local_unknown_id_witness:
  "7 \<notin> fst ` set (all_assets index_example)
   \<and> fst (check_asset_is_local assets_example index_example 7 (Some ''METALNESS'') (Some ''4K'')
        (Some ''LOD1'') (Some FBX) True) = Inr (Some False)"
proof -
  have a: "7 \<notin> fst ` set (all_assets index_example)"
    by (simp add: index_example_def)
  from C10_check_asset_is_local_unknown_id [OF a, of assets_example "Some ''METALNESS''"
      "Some ''4K''" "Some ''LOD1''" "Some FBX" True] a
  show ?thesis by simp
qed

section \<open>Properties of the download of one file\<close>

lemma set_status_ongoing_cancelled:
  "status d = CANCELLED \<Longrightarrow> set_status_ongoing d = (False, d)"
  by (simp add: set_status_ongoing_def)

lemma set_status_cancelled_cancelled:
  "status d = CANCELLED \<Longrightarrow> status (set_status_cancelled d) = CANCELLED"
  by (simp add: set_status_cancelled_def)

text \<open>
  A unit that is CANCELLED when the worker reaches the transition to ONGOING, be it
  from the start or by a cancellation during the stream request, leaves the files of
  the machine as they are, whatever the server replies.
\<close>

lemma download_asset_file_cancelled_files:
  assumes "status (if cancel_during_request env then set_status_cancelled d else d) = CANCELLED"
  shows "files (snd (snd (download_asset_file env w d))) = files w"
proof -
  let ?d0 = "if cancel_during_request env then set_status_cancelled d else d"
  have "set_status_ongoing ?d0 = (False, ?d0)"
    using assms by (rule set_status_ongoing_cancelled)
  then show ?thesis
    by (cases "cancel_during_request env")
       (simp_all add: download_asset_file_def Let_def split: option.splits sum.splits)
qed

lemma download_asset_cancelled:
  assumes "aid \<in> download_cancelled st"
  shows "download_asset A env st w aid cb run =
     (if download_queue st aid = None then (Inl KeyError, st, [], w)
      else (Inr False,
            st\<lparr>download_queue := (download_queue st)(aid := None),
               download_cancelled := download_cancelled st - {aid}\<rparr>, [], w))"
  using assms by (simp add: download_asset_def)

lemma stream_loop_size:
  "stream_loop es d written = (r, d', written') \<Longrightarrow>
     size_downloaded d' - size_downloaded d = int written' - int written"
proof (induction es d written rule: stream_loop.induct)
  case (3 n es d written)
  then show ?case
    by (auto simp: Let_def split: if_splits)
next
  case (5 es d written)
  then show ?case
    by (auto simp: set_status_cancelled_def Let_def split: if_splits)
qed auto

lemma stream_loop_size_expected:
  "stream_loop es d written = (r, d', written') \<Longrightarrow> size_expected d' = size_expected d"
proof (induction es d written rule: stream_loop.induct)
  case (3 n es d written)
  then show ?case
    by (auto simp: Let_def split: if_splits)
next
  case (5 es d written)
  then show ?case
    by (auto simp: set_status_cancelled_def Let_def split: if_splits)
qed auto

lemma delete_file_gone:
  "path \<notin> protected w \<Longrightarrow> files (delete_file w path) path = None"
  by (simp add: delete_file_def os_remove_def)

lemma delete_file_others:
  "q \<noteq> path \<Longrightarrow> files (delete_file w path) q = files w q"
  by (simp add: delete_file_def os_remove_def)

text \<open>
  C4: for a unit whose temp path or final path already holds a file of exactly
  \<open>size_expected\<close> bytes, \<open>download_asset_file\<close> marks the unit DONE, sets
  \<open>size_downloaded\<close> to \<open>size_expected\<close> and returns a success response; the machine
  is as before, so no stream request was sent and no file was written.
\<close>

theorem C4_already_complete:
  assumes "p = get_path d True \<or> p = get_path d False"
    and "files w p = Some n" and "int n = size_expected d"
  shows "download_asset_file env w d =
           (Inr \<lparr>body = Body_download (d\<lparr>status := DONE, size_downloaded := size_expected d\<rparr>) None,
                 ok = True, err = None\<rparr>,
            d\<lparr>status := DONE, size_downloaded := size_expected d\<rparr>, w)"
  using assms
  by (auto simp: download_asset_file_def check_exist_and_finished_def set_status_done_def Let_def)

text \<open>The temp file of the example unit is complete: the unit is DONE without a request.\<close>

theorem C4_already_complete_witness:
  "files (world_example [(''/lib/Metal001/Metal001_COL_4K.jpgdl'', 3000)])
     (get_path dl_waiting_example True) = Some 3000
   \<and> status (fst (snd (download_asset_file (env_example 3000 [Chunk 1024])
        (world_example [(''/lib/Metal001/Metal001_COL_4K.jpgdl'', 3000)]) dl_waiting_example))) = DONE
   \<and> size_downloaded (fst (snd (download_asset_file (env_example 3000 [Chunk 1024])
        (world_example [(''/lib/Metal001/Metal001_COL_4K.jpgdl'', 3000)]) dl_waiting_example))) = 3000
   \<and> requests (snd (snd (download_asset_file (env_example 3000 [Chunk 1024])
        (world_example [(''/lib/Metal001/Metal001_COL_4K.jpgdl'', 3000)]) dl_waiting_example))) = []"
proof -
  let ?w = "world_example [(''/lib/Metal001/Metal001_COL_4K.jpgdl'', 3000)]"
  have p: "get_path dl_waiting_example True = get_path dl_waiting_example True
           \<or> get_path dl_waiting_example True = get_path dl_waiting_example False"
    by simp
  have f: "files ?w (get_path dl_waiting_example True) = Some 3000"
    by (simp add: world_example_def get_path_def get_filename_def os_path_join_def
        dl_waiting_example_def new_FileDownload_def DOWNLOAD_TEMP_SUFFIX_def)
  have n: "int 3000 = size_expected dl_waiting_example"
    by (simp add: dl_waiting_example_def new_FileDownload_def)
  from C4_already_complete [OF p f n, of "env_example 3000 [Chunk 1024]"] f
  show ?thesis
    by (simp add: world_example_def dl_waiting_example_def new_FileDownload_def)
qed

text \<open>
  C6: when the asset id is in the cancelled set, \<open>download_asset\<close> returns before the
  middle of the function runs: no unit is scheduled and the machine is as before (it
  returns False, or raises KeyError at \<open>del self.download_queue[asset_id]\<close> when the
  asset is not queued). And for a unit that is CANCELLED when the worker reaches the
  transition from WAITING to ONGOING, \<open>set_status_ongoing\<close> returns False and leaves
  the unit as it is, and \<open>download_asset_file\<close> leaves every file as it is.
\<close>

theorem C6_cancelled_before_start:
  assumes queued: "aid \<in> download_cancelled st"
    and at_transition: "d0 = (if cancel_during_request env then set_status_cancelled d else d)"
    and unit: "status d0 = CANCELLED"
  shows "snd (snd (download_asset A fs st w aid cb run)) = ([], w)
         \<and> fst (download_asset A fs st w aid cb run)
             = (if download_queue st aid = None then Inl KeyError else Inr False)
         \<and> set_status_ongoing d0 = (False, d0)
         \<and> files (snd (snd (download_asset_file env w d))) = files w"
  using download_asset_cancelled [OF queued] set_status_ongoing_cancelled [OF unit]
    download_asset_file_cancelled_files [of env d w] unit at_transition
  by simp

text \<open>
  Asset 42 is cancelled while queued, and its unit is cancelled while the stream
  request is under way: nothing is scheduled and no file appears.
\<close>

theorem C6_cancelled_before_start_witness:
  "42 \<in> download_cancelled (addon_example\<lparr>download_cancelled := {42}\<rparr>)
   \<and> status (set_status_cancelled dl_waiting_example) = CANCELLED
   \<and> fst (download_asset assets_example library_example (addon_example\<lparr>download_cancelled := {42}\<rparr>) (world_example []) 42
        True (\<lambda>w. (Loop_left True False [dl_waiting_example] ''/lib/Metal001'',
               w\<lparr>files := (files w)(''/lib/Metal001/Metal001_COL_4K.jpgdl'' \<mapsto> 3000)\<rparr>)))
      = Inr False
   \<and> snd (snd (download_asset assets_example library_example (addon_example\<lparr>download_cancelled := {42}\<rparr>) (world_example [])
        42 True (\<lambda>w. (Loop_left True False [dl_waiting_example] ''/lib/Metal001'',
               w\<lparr>files := (files w)(''/lib/Metal001/Metal001_COL_4K.jpgdl'' \<mapsto> 3000)\<rparr>))))
      = ([], world_example [])
   \<and> files (snd (snd (download_asset_file
        ((env_example 3000 [Chunk 3000])\<lparr>cancel_during_request := True\<rparr>)
        (world_example []) dl_waiting_example))) = Map.empty"
proof -
  let ?st = "addon_example\<lparr>download_cancelled := {42}\<rparr>"
  let ?env = "(env_example 3000 [Chunk 3000])\<lparr>cancel_during_request := True\<rparr>"
  have q: "42 \<in> download_cancelled ?st"
    by simp
  have t: "set_status_cancelled dl_waiting_example
      = (if cancel_during_request ?env then set_status_cancelled dl_waiting_example
         else dl_waiting_example)"
    by (simp add: env_example_def)
  have u: "status (set_status_cancelled dl_waiting_example) = CANCELLED"
    by (simp add: set_status_cancelled_def dl_waiting_example_def new_FileDownload_def)
  from C6_cancelled_before_start [where A = assets_example and fs = library_example
      and w = "world_example []" and cb = True
      and run = "\<lambda>w. (Loop_left True False [dl_waiting_example] ''/lib/Metal001'',
             w\<lparr>files := (files w)(''/lib/Metal001/Metal001_COL_4K.jpgdl'' \<mapsto> 3000)\<rparr>)",
      OF q t u] u
  show ?thesis
    by (simp add: addon_example_def world_example_def)
qed

text \<open>
  C7, as stated, fails. The server announces 2048 bytes, which is what the unit
  expects, and the user cancels after the first of two chunks of 1024 bytes. The loop
  is left after the second chunk with the unit CANCELLED, but the two byte counts
  agree, so \<open>download_asset_file\<close> marks the unit DONE, returns an ok response and
  keeps the temp file.
\<close>

theorem C7_cancelled_mid_stream_marked_done:
  "status (fst (snd (stream_loop [Chunk 1024, Cancel, Chunk 1024]
             (dl_expects_2048_example\<lparr>status := ONGOING, size_downloaded := 0\<rparr>) 0)))
     = CANCELLED
   \<and> download_asset_file (env_example 2048 [Chunk 1024, Cancel, Chunk 1024])
         (world_example []) dl_expects_2048_example =
       (Inr \<lparr>body = Body_download
                      (dl_expects_2048_example\<lparr>size_downloaded := 2048, status := DONE\<rparr>)
                      (Some ''ray1''),
             ok = True, err = None\<rparr>,
        dl_expects_2048_example\<lparr>size_downloaded := 2048, status := DONE\<rparr>,
        (world_example [(''/lib/Metal001/Metal001_COL_4K.jpgdl'', 2048)])
          \<lparr>requests := [''https://cdn/f'']\<rparr>)"
  by (simp add: download_asset_file_def write_stream_def check_stream_result_def
      check_exist_and_finished_def set_status_ongoing_def set_status_cancelled_def
      set_status_done_def set_status_error_def get_path_def get_filename_def os_path_join_def
      DOWNLOAD_TEMP_SUFFIX_def env_example_def world_example_def dl_expects_2048_example_def
      dl_waiting_example_def new_FileDownload_def Let_def)

text \<open>
  C7, amended: when the streaming loop of \<open>download_asset_file\<close> has finished without
  an exception, \<open>size_downloaded\<close> is the number of bytes written, and the unit is
  marked DONE exactly if that number equals \<open>size_expected\<close> and the Content-Length of
  the server, also when a cancellation has arrived during the loop. Otherwise the unit
  is marked ERROR, \<open>delete_file\<close> is applied to the temp file (which removes it,
  unless the operating system refuses), and the response is an error whose message is
  the user-cancel message if the unit was CANCELLED in the loop and the
  filesize-mismatch message if not.
\<close>

theorem C7_stream_completed:
  assumes absent: "\<not> check_exist_and_finished w (get_path d True) d"
                  "\<not> check_exist_and_finished w (get_path d False) d"
    and reply: "reply_ok (reply env)" "reply_stream (reply env) = Some strm"
               "content_length strm = Inr stream_size"
    and started: "set_status_ongoing (if cancel_during_request env
                    then set_status_cancelled d else d) = (True, d1)"
    and opened: "open_error env = None"
    and looped: "stream_loop (events strm) (d1\<lparr>size_downloaded := 0\<rparr>) 0 = (None, d3, written)"
    and cf: "cf_ray = (case reply_cf_ray (reply env) of None \<Rightarrow> [] | Some c \<Rightarrow> c)"
    and w2: "w2 = w\<lparr>requests := requests w @ [url d],
                    files := (files w)(get_path d True \<mapsto> written)\<rparr>"
  shows "size_downloaded d3 = int written
         \<and> download_asset_file env w d =
             (if size_expected d = int written \<and> int written = stream_size
              then (Inr \<lparr>body = Body_download (d3\<lparr>status := DONE\<rparr>) (Some cf_ray),
                         ok = True, err = None\<rparr>,
                    d3\<lparr>status := DONE\<rparr>, w2)
              else (Inr \<lparr>body = Body_error (Error_text
                                   (if status d3 = CANCELLED then ERR_USER_CANCEL_MSG
                                    else ERR_FILESIZE_MISMATCH)) cf_ray,
                         ok = False,
                         err = Some (Msg (if status d3 = CANCELLED then ERR_USER_CANCEL_MSG
                                          else ERR_FILESIZE_MISMATCH))\<rparr>,
                    d3\<lparr>status := ERROR\<rparr>, delete_file w2 (get_path d True)))
         \<and> (get_path d True \<notin> protected w
              \<longrightarrow> files (delete_file w2 (get_path d True)) (get_path d True) = None)"
proof -
  have sz: "size_downloaded d3 = int written"
    using stream_loop_size [OF looped] by simp
  have se: "size_expected d3 = size_expected d"
  proof -
    have "size_expected d3 = size_expected (d1\<lparr>size_downloaded := 0\<rparr>)"
      using looped by (rule stream_loop_size_expected)
    also have "\<dots> = size_expected d"
      using started by (auto simp: set_status_ongoing_def set_status_cancelled_def
          split: if_splits)
    finally show ?thesis .
  qed
  have run: "download_asset_file env w d =
      (case check_stream_result stream_size d3 w2 (get_path d True) cf_ray of
         (r, d', w') \<Rightarrow> (Inr r, d', w'))"
    using absent reply started opened looped
    by (simp add: download_asset_file_def write_stream_def Let_def cf w2)
  have gone: "get_path d True \<notin> protected w
      \<longrightarrow> files (delete_file w2 (get_path d True)) (get_path d True) = None"
    by (simp add: delete_file_gone w2)
  show ?thesis
    using sz gone
    by (simp add: run check_stream_result_def se sz set_status_done_def set_status_error_def
        Let_def)
qed

text \<open>
  A cancellation after the first of three chunks: the loop stops after the second
  chunk with 2048 of 3000 bytes, the unit is ERROR, the response carries the user-cancel
  message, and the temp file is gone.
\<close>

theorem C7_stream_completed_witness:
  "download_asset_file (env_example 3000 [Chunk 1024, Cancel, Chunk 1024, Chunk 952])
       (world_example []) dl_waiting_example =
     (Inr \<lparr>body = Body_error (Error_text ERR_USER_CANCEL_MSG) ''ray1'', ok = False,
           err = Some (Msg ERR_USER_CANCEL_MSG)\<rparr>,
      dl_waiting_example\<lparr>size_downloaded := 2048, status := ERROR\<rparr>,
      (world_example [])\<lparr>requests := [''https://cdn/f'']\<rparr>)"
proof -
  let ?env = "env_example 3000 [Chunk 1024, Cancel, Chunk 1024, Chunk 952]"
  let ?w = "world_example []"
  let ?d = dl_waiting_example
  let ?strm = "\<lparr>content_length = Inr 3000, events = [Chunk 1024, Cancel, Chunk 1024, Chunk 952]\<rparr>"
  let ?d1 = "?d\<lparr>status := ONGOING\<rparr>"
  let ?d3 = "?d\<lparr>status := CANCELLED, size_downloaded := 2048\<rparr>"
  let ?w2 = "?w\<lparr>requests := requests ?w @ [url ?d],
                files := (files ?w)(get_path ?d True \<mapsto> 2048)\<rparr>"
  have a1: "\<not> check_exist_and_finished ?w (get_path ?d True) ?d"
    by (simp add: check_exist_and_finished_def world_example_def)
  have a2: "\<not> check_exist_and_finished ?w (get_path ?d False) ?d"
    by (simp add: check_exist_and_finished_def world_example_def)
  have r1: "reply_ok (reply ?env)"
    by (simp add: env_example_def)
  have r2: "reply_stream (reply ?env) = Some ?strm"
    by (simp add: env_example_def)
  have r3: "content_length ?strm = Inr 3000"
    by simp
  have st: "set_status_ongoing (if cancel_during_request ?env
              then set_status_cancelled ?d else ?d) = (True, ?d1)"
    by (simp add: env_example_def set_status_ongoing_def dl_waiting_example_def
        new_FileDownload_def)
  have op: "open_error ?env = None"
    by (simp add: env_example_def)
  have lp: "stream_loop (events ?strm) (?d1\<lparr>size_downloaded := 0\<rparr>) 0 = (None, ?d3, 2048)"
    by (simp add: set_status_cancelled_def dl_waiting_example_def new_FileDownload_def)
  have cf: "''ray1'' = (case reply_cf_ray (reply ?env) of None \<Rightarrow> [] | Some c \<Rightarrow> c)"
    by (simp add: env_example_def)
  have w2: "?w2 = ?w\<lparr>requests := requests ?w @ [url ?d],
                    files := (files ?w)(get_path ?d True \<mapsto> 2048)\<rparr>"
    by simp
  from C7_stream_completed [OF a1 a2 r1 r2 r3 st op lp cf w2]
  show ?thesis
    by (simp add: dl_waiting_example_def new_FileDownload_def world_example_def
        delete_file_def os_remove_def)
qed

section \<open>Properties of the renaming of the temp files\<close>

lemma get_path_temp: "get_path d True = get_path d False @ ''dl''"
  by (auto simp: get_path_def get_filename_def os_path_join_def DOWNLOAD_TEMP_SUFFIX_def
      hd_append)

lemma get_path_temp_neq: "get_path d True \<noteq> get_path d False"
  by (simp add: get_path_temp)

lemma keep_unit_fst: "fst (keep_unit d r) = fst r"
  by (simp add: keep_unit_def split: prod.splits)

lemma keep_unit_units: "fst (snd (keep_unit d r)) = d # fst (snd r)"
  by (simp add: keep_unit_def split: prod.splits)

text \<open>A final file that is already there, with the temp copy gone: nothing to do.\<close>

lemma rename_only_final:
  assumes "files w (get_path d True) = None" and "files w (get_path d False) \<noteq> None"
  shows "rename_downloads w [d] = (Inr (True, []), [d], w)"
  using assms by (simp add: rename_downloads_def keep_unit_def Let_def)

text \<open>
  A final file that is already there, and the temp copy too: the temp copy replaces
  the file (POSIX) or is removed (Windows); the unit is not touched and the renaming
  counts as successful.
\<close>

lemma rename_both_exist:
  assumes "files w (get_path d True) = Some n" and "files w (get_path d False) = Some m"
    and "get_path d True \<notin> protected w" and "get_path d False \<notin> protected w"
  shows "fst (rename_downloads w [d]) = Inr (True, note_error d [])
         \<and> fst (snd (rename_downloads w [d])) = [d]
         \<and> files (snd (snd (rename_downloads w [d]))) (get_path d True) = None
         \<and> files (snd (snd (rename_downloads w [d]))) (get_path d False)
             = Some (if windows w then m else n)"
  using assms get_path_temp_neq [of d]
  by (cases "windows w")
     (auto simp: rename_downloads_def keep_unit_def os_rename_def os_remove_def Let_def)

text \<open>A rename that fails marks the unit ERROR and makes the result False.\<close>

lemma rename_missing:
  assumes "files w (get_path d True) = None" and "files w (get_path d False) = None"
  shows "rename_downloads w [d] =
           (Inr (False, ''Missing file: '' @ get_path d True),
            [d\<lparr>status := ERROR, error := Some (''Missing file: '' @ get_path d True)\<rparr>], w)"
  using assms
  by (simp add: rename_downloads_def keep_unit_def os_rename_def note_error_def Let_def)

lemma rename_no_permission:
  assumes "files w (get_path d True) \<noteq> None"
    and "get_path d True \<in> protected w \<or> get_path d False \<in> protected w"
  shows "rename_downloads w [d] =
           (Inr (False, ''Lacking permission to rename downloaded file: '' @ get_path d True),
            [d\<lparr>status := ERROR,
               error := Some (''Lacking permission to rename downloaded file: ''
                              @ get_path d True)\<rparr>], w)"
  using assms
  by (auto simp: rename_downloads_def keep_unit_def os_rename_def note_error_def Let_def)

text \<open>Once a rename has failed, the result stays False, whatever follows.\<close>

lemma rename_loop_stays_False:
  "fst (rename_loop w dl False msg) = Inr (r, m) \<Longrightarrow> \<not> r"
proof (induction dl arbitrary: w msg)
  case Nil
  then show ?case by simp
next
  case (Cons d dl)
  then show ?case
    by (auto simp: Let_def keep_unit_fst split: if_splits sum.splits exc.splits)
qed

text \<open>
  \<open>download_asset_sync\<close> reports the failed renaming: it stores the message and
  returns False.
\<close>

lemma download_asset_sync_rename_failed:
  assumes "\<not> is_cancelled s" and "run s w = (Sync_loop_returned True dl_list, s1, w1)"
    and "\<not> has_error s1" and "\<not> is_cancelled s1"
    and "rename_downloads w1 dl_list = (Inr (False, msg), dl_list', w2)"
  shows "download_asset_sync s w run = (Inr False, set_error s1 msg, dl_list', w2)"
  using assms by (simp add: download_asset_sync_def)

text \<open>
  \<open>download_asset\<close> drops what \<open>rename_downloads\<close> returns: whatever the flag, it
  calls the \<open>done_callback\<close> without an error and returns True.
\<close>

lemma download_asset_rename_result_dropped:
  assumes "aid \<notin> download_cancelled st" and "download_queue st aid \<noteq> None"
    and "run w = (Loop_left True False dl_list download_dir, w1)"
    and "rename_downloads w1 dl_list = (Inr (flag, msg), dl_list', w2)"
    and "update_asset_data A env (asset_index st) aid download_dir = (Inr (), idx1)"
  shows "download_asset A env st w aid True run =
           (Inr True,
            st\<lparr>asset_index := idx1,
               download_queue := (download_queue st)(aid := None),
               download_cancelled := download_cancelled st - {aid},
               done_calls := done_calls st @ [(aid, None)]\<rparr>, dl_list', w2)"
  using assms by (simp add: download_asset_def)

text \<open>
  C8 fails on \<open>download_asset\<close>. The unit of the example is DONE and its temp file
  is complete, but the operating system refuses the rename. \<open>rename_downloads\<close>
  marks the unit ERROR and returns False with the message, and
  \<open>download_asset_sync\<close> on this input returns False; \<open>download_asset\<close> does not
  read what \<open>rename_downloads\<close> returns: it calls the \<open>done_callback\<close> without an
  error and returns True.
\<close>

theorem C8_rename_failure_not_reported:
  "fst (rename_downloads world_locked_example [dl_finished_example])
     = Inr (False, ''Lacking permission to rename downloaded file: ''
                   @ ''/lib/Metal001/Metal001_COL_4K.jpgdl'')
   \<and> map status (fst (snd (rename_downloads world_locked_example [dl_finished_example])))
       = [ERROR]
   \<and> fst (download_asset_sync dl_state_example world_locked_example
        (\<lambda>s w. (Sync_loop_returned True [dl_finished_example], s, w))) = Inr False
   \<and> fst (download_asset assets_example library_example addon_example
        world_locked_example 42 True
        (\<lambda>w. (Loop_left True False [dl_finished_example] ''/lib/Metal001'', w))) = Inr True
   \<and> done_calls (fst (snd (download_asset assets_example library_example addon_example
        world_locked_example 42 True
        (\<lambda>w. (Loop_left True False [dl_finished_example] ''/lib/Metal001'', w))))) = [(42, None)]
   \<and> map status (fst (snd (snd (download_asset assets_example library_example addon_example
        world_locked_example 42 True
        (\<lambda>w. (Loop_left True False [dl_finished_example] ''/lib/Metal001'', w)))))) = [ERROR]"
proof -
  have p: "get_path dl_finished_example True = ''/lib/Metal001/Metal001_COL_4K.jpgdl''"
    by (simp add: get_path_def get_filename_def os_path_join_def dl_finished_example_def
        dl_waiting_example_def new_FileDownload_def DOWNLOAD_TEMP_SUFFIX_def)
  have e: "files world_locked_example (get_path dl_finished_example True) \<noteq> None"
    by (simp add: p world_locked_example_def world_example_def)
  have l: "get_path dl_finished_example True \<in> protected world_locked_example
           \<or> get_path dl_finished_example False \<in> protected world_locked_example"
    by (simp add: p world_locked_example_def)
  note r = rename_no_permission [OF e l]
  have s: "download_asset_sync dl_state_example world_locked_example
        (\<lambda>s w. (Sync_loop_returned True [dl_finished_example], s, w))
      = (Inr False,
         set_error dl_state_example (''Lacking permission to rename downloaded file: ''
                                     @ get_path dl_finished_example True),
         [dl_finished_example\<lparr>status := ERROR,
            error := Some (''Lacking permission to rename downloaded file: ''
                              @ get_path dl_finished_example True)\<rparr>],
         world_locked_example)"
    by (rule download_asset_sync_rename_failed [OF _ _ _ _ r])
       (simp_all add: dl_state_example_def)
  have u: "update_asset_data assets_example library_example (asset_index addon_example) 42
        ''/lib/Metal001'' = (Inr (), asset_index addon_example)"
    by (simp add: update_asset_data_def library_example_def endswith_def os_path_join_def
        DOWNLOAD_TEMP_SUFFIX_def)
  have a: "download_asset assets_example library_example addon_example
        world_locked_example 42 True
        (\<lambda>w. (Loop_left True False [dl_finished_example] ''/lib/Metal001'', w))
      = (Inr True,
         addon_example\<lparr>asset_index := asset_index addon_example,
            download_queue := (download_queue addon_example)(42 := None),
            download_cancelled := download_cancelled addon_example - {42},
            done_calls := done_calls addon_example @ [(42, None)]\<rparr>,
         [dl_finished_example\<lparr>status := ERROR,
            error := Some (''Lacking permission to rename downloaded file: ''
                              @ get_path dl_finished_example True)\<rparr>],
         world_locked_example)"
    by (rule download_asset_rename_result_dropped [OF _ _ _ r u])
       (simp_all add: addon_example_def)
  have c: "done_calls addon_example = []"
    by (simp add: addon_example_def)
  show ?thesis
    by (simp add: r s a p c)
qed

text \<open>
  The two asset-level results side by side, on the same units and the same machine.
\<close>

theorem C8_rename_failure_not_reported_witness:
  "fst (download_asset_sync dl_state_example world_locked_example
        (\<lambda>s w. (Sync_loop_returned True [dl_finished_example], s, w))) = Inr False
   \<and> fst (download_asset assets_example library_example addon_example
        world_locked_example 42 True
        (\<lambda>w. (Loop_left True False [dl_finished_example] ''/lib/Metal001'', w))) = Inr True"
  using C8_rename_failure_not_reported by simp

section \<open>Properties of the scan of the library directories\<close>


lemma update_asset_other:
  "update_asset A idx i new purge = (r, idx1) \<Longrightarrow> j \<noteq> i
     \<Longrightarrow> map_of (all_assets idx1) j = map_of (all_assets idx) j"
  unfolding update_asset_def capture_message_def Let_def
  by (cases "map_of (all_assets idx) i") (auto simp: update_conv' split: if_splits)

lemma update_asset_self:
  "update_asset A idx i new purge = (Inr u, idx1) \<Longrightarrow> map_of (all_assets idx) i = Some a
     \<Longrightarrow> map_of (all_assets idx1) i = Some (AssetData_update A a new purge)"
  unfolding update_asset_def capture_message_def Let_def
  by (auto simp: update_conv' split: if_splits)




















section \<open>Properties of the cache file\<close>

text \<open>
  The part of the round trip that asset\_index.py decides: if every record is stored
  under its own id and comes back from its stored dictionary as it was, then
  \<open>load_cache\<close> on the file that \<open>save_cache\<close> wrote rebuilds the dictionary of the
  assets, in the same order.
\<close>

lemma update_new_key: "k \<notin> fst ` set al \<Longrightarrow> AList.update k v al = al @ [(k, v)]"
  by (induction al) auto

lemma reload_appends:
  assumes "distinct (map fst al)" and "fst ` set al \<inter> fst ` set acc = {}"
    and "list_all (\<lambda>(k, a). asset_id a = k \<and> from_dict (stored a) = a) al"
  shows "foldl (\<lambda>al asset_dict.
                  (let asset_data = from_dict asset_dict
                   in AList.update (asset_id asset_data) asset_data al))
           acc (map (\<lambda>(k, asset_data). stored asset_data) al) = acc @ al"
  using assms
proof (induction al arbitrary: acc)
  case Nil
  then show ?case by simp
next
  case (Cons p al)
  obtain k a where p: "p = (k, a)" by (cases p) auto
  from Cons.prems p have ka: "asset_id a = k" "from_dict (stored a) = a"
    and knew: "k \<notin> fst ` set acc" and kal: "k \<notin> fst ` set al"
    and d: "distinct (map fst al)"
    and rest: "list_all (\<lambda>(k, a). asset_id a = k \<and> from_dict (stored a) = a) al"
    by auto
  have disj: "fst ` set al \<inter> fst ` set (acc @ [(k, a)]) = {}"
    using Cons.prems(2) kal p by auto
  from Cons.IH [OF d disj rest] ka knew show ?case
    by (simp add: p update_new_key)
qed

lemma load_cache_save_cache:
  assumes "save_cache stored path_cache idx disk = Inr disk'"
    and "distinct (map fst (all_assets idx))"
    and "list_all (\<lambda>(k, a). asset_id a = k \<and> from_dict (stored a) = a) (all_assets idx)"
  shows "load_cache from_dict path_cache idx0 disk' = (Inr (), idx0\<lparr>all_assets := all_assets idx\<rparr>)"
proof -
  from assms(1) have len: "\<not> length path_cache < 2"
    and written: "disk' path_cache = Some (map (\<lambda>(k, asset_data). stored asset_data) (all_assets idx))"
    by (auto simp: save_cache_def split: if_splits)
  have "foldl (\<lambda>al asset_dict.
                  (let asset_data = from_dict asset_dict
                   in AList.update (asset_id asset_data) asset_data al))
           [] (map (\<lambda>(k, asset_data). stored asset_data) (all_assets idx)) = [] @ all_assets idx"
    by (rule reload_appends) (use assms in simp_all)
  then show ?thesis
    by (simp add: load_cache_def len written)
qed

text \<open>
  Whatever \<open>update_asset\<close> returns, every stored record keeps its id, name and type
  (in the successful case by the update of the record as modelled above).
\<close>

lemma update_asset_identity:
  assumes "update_asset A idx aid new purge_maps = (r, idx1)"
    and "map_of (all_assets idx) j = Some a"
  shows "\<exists>a1. map_of (all_assets idx1) j = Some a1 \<and> asset_id a1 = asset_id a
           \<and> asset_name a1 = asset_name a \<and> asset_type a1 = asset_type a"
proof (cases "j = aid")
  case False
  from update_asset_other [OF assms(1) False] assms(2) show ?thesis by simp
next
  case True
  show ?thesis
  proof (cases r)
    case (Inl e)
    with assms True show ?thesis
      unfolding update_asset_def capture_message_def Let_def
      by (auto split: if_splits)
  next
    case (Inr u)
    from update_asset_self [OF assms(1) [unfolded Inr] assms(2) [unfolded True]] True
    show ?thesis by (simp add: AssetData_update_def)
  qed
qed

end

